theory Spec2Isabelle
  imports Complex_Main "HOL-Library.Char_ord" "HOL-Library.List_Lexorder"
begin

section \<open>Reconciliation engine (matcher and aggregator)\<close>

text \<open>
  The module \<^verbatim>\<open>rate_tool_integration\<close> that holds the matcher and the aggregator
  (\<^verbatim>\<open>run_rate_analysis\<close>) is imported by \<^verbatim>\<open>app.py\<close> but is not among the source
  files. The definitions of this section follow sections 3, 4.3 and 4.4 of the
  specification. Amounts are Python floats in the program; they are modelled as exact
  reals, so NaN, infinities and binary rounding are outside the model.
\<close>

text \<open>Modelled from the spec: the four values of \<^verbatim>\<open>diff_status\<close> (section 3).\<close>

datatype diff_status = matched | higher | lower | missing

text \<open>
  Modelled from the spec: the value of \<^verbatim>\<open>percentage_diff\<close>. Section 4.3 defines it as
  "unbounded/infinite" when the invoice amount is zero and the calculated one is not; the
  two sentinels stand for that case.
\<close>

datatype pct = Finite real | PosInfinite | NegInfinite

text \<open>Modelled from the spec: FeeLine of section 3, one calculated fee entry.\<close>

record FeeLine =
  fl_fee_type :: string
  fl_rate_chart :: string
  fl_calculation_method :: string
  fl_raw_amount :: real
  fl_exchange_rate :: "real option"
  fl_final_amount :: real

text \<open>Modelled from the spec: InvoiceLine of section 3, one invoiced fee entry.\<close>

record InvoiceLine =
  il_fee_type :: string
  il_rate_chart :: string
  il_visa_amount :: real

text \<open>
  Modelled from the spec: MatchResult of section 3; \<open>mr_visa_amount\<close> and
  \<open>mr_percentage_diff\<close> are \<open>None\<close> when no invoice line was found.
\<close>

record MatchResult =
  mr_fee_type :: string
  mr_rate_chart :: string
  mr_calculation_method :: string
  mr_final_amount :: real
  mr_visa_amount :: "real option"
  mr_exchange_rate :: "real option"
  mr_percentage_diff :: "pct option"
  mr_diff_status :: diff_status

text \<open>Modelled from the spec: SheetResult of section 3.\<close>

record SheetResult =
  sheet_name :: string
  sheet_results :: "MatchResult list"

text \<open>
  Modelled from the spec: Summary of section 3, with the fields for which section 4.4
  gives a formula.
\<close>

record Summary =
  total_final_amount :: real
  total_visa_amount :: real
  matched_items :: nat
  total_visa_items :: nat
  total_calculated_items :: nat
  amount_reconciled_percentage :: real

text \<open>Modelled from the spec: the fixed tolerance of section 4.3, 1.0 percent.\<close>

definition TOLERANCE :: real where
  "TOLERANCE = 1.0"

text \<open>
  Modelled from the spec: the classification rule of section 4.3, step 3, with the
  zero-denominator sentinels classified as the maximal deviation of their sign
  (step 2).
\<close>

fun classify :: "pct \<Rightarrow> diff_status" where
  "classify (Finite d) =
     (if \<bar>d\<bar> \<le> TOLERANCE then matched
      else if d > TOLERANCE then higher
      else lower)"
| "classify PosInfinite = higher"
| "classify NegInfinite = lower"

text \<open>
  Modelled from the spec: \<^verbatim>\<open>percentage_diff\<close> of section 4.3, step 2:
  \<^verbatim>\<open>(final_amount - visa_amount) / visa_amount * 100\<close> when the invoice amount is not
  zero; zero when both amounts are zero; otherwise the sentinel of the sign of the
  calculated amount.
\<close>

definition percentage_diff :: "real \<Rightarrow> real \<Rightarrow> pct" where
  "percentage_diff final_amount visa_amount =
     (if visa_amount \<noteq> 0 then Finite ((final_amount - visa_amount) / visa_amount * 100)
      else if final_amount = 0 then Finite 0
      else if final_amount > 0 then PosInfinite
      else NegInfinite)"

text \<open>
  Modelled from the spec: step 1 of section 4.3, the mapping from
  \<^verbatim>\<open>(fee_type, rate_chart)\<close> to the invoice line; a later line with the same key
  overwrites an earlier one (section 4.1).
\<close>

definition invoice_map :: "InvoiceLine list \<Rightarrow> (string \<times> string) \<rightharpoonup> InvoiceLine" where
  "invoice_map invoice_lines =
     fold (\<lambda>l m. m((il_fee_type l, il_rate_chart l) \<mapsto> l)) invoice_lines Map.empty"

text \<open>Modelled from the spec: step 2 of section 4.3 for one calculated line.\<close>

definition match_line :: "((string \<times> string) \<rightharpoonup> InvoiceLine) \<Rightarrow> FeeLine \<Rightarrow> MatchResult" where
  "match_line m fl =
     (case m (fl_fee_type fl, fl_rate_chart fl) of
        Some il \<Rightarrow>
          (let d = percentage_diff (fl_final_amount fl) (il_visa_amount il)
           in \<lparr> mr_fee_type = fl_fee_type fl,
                mr_rate_chart = fl_rate_chart fl,
                mr_calculation_method = fl_calculation_method fl,
                mr_final_amount = fl_final_amount fl,
                mr_visa_amount = Some (il_visa_amount il),
                mr_exchange_rate = fl_exchange_rate fl,
                mr_percentage_diff = Some d,
                mr_diff_status = classify d \<rparr>)
      | None \<Rightarrow>
          \<lparr> mr_fee_type = fl_fee_type fl,
            mr_rate_chart = fl_rate_chart fl,
            mr_calculation_method = fl_calculation_method fl,
            mr_final_amount = fl_final_amount fl,
            mr_visa_amount = None,
            mr_exchange_rate = fl_exchange_rate fl,
            mr_percentage_diff = None,
            mr_diff_status = missing \<rparr>)"

text \<open>
  Modelled from the spec: the matcher's contract
  \<^verbatim>\<open>match(fee_lines, invoice_lines) -> [MatchResult]\<close>, one result per calculated
  line, in the order of the lines.
\<close>

definition match :: "FeeLine list \<Rightarrow> InvoiceLine list \<Rightarrow> MatchResult list" where
  "match fee_lines invoice_lines = map (match_line (invoice_map invoice_lines)) fee_lines"

text \<open>
  Modelled from the spec: the clamped percentage of section 4.4. The spec names an
  \<^verbatim>\<open>epsilon\<close> without giving its value; it is a parameter here.
\<close>

definition reconciled_percentage :: "real \<Rightarrow> real \<Rightarrow> real \<Rightarrow> real" where
  "reconciled_percentage epsilon total_final total_visa =
     max 0 (min 100 (100 * (1 - \<bar>total_final - total_visa\<bar> / max total_visa epsilon)))"

text \<open>
  Modelled from the spec: \<^verbatim>\<open>aggregate(sheets, unmatched_invoice_count) -> Summary\<close>
  of section 4.4. The fee-reconciled percentage and the display strings, which the spec
  leaves without a formula, are not part of the model.
\<close>

definition aggregate :: "real \<Rightarrow> SheetResult list \<Rightarrow> nat \<Rightarrow> Summary" where
  "aggregate epsilon sheets unmatched_invoice_count =
     (let rs = concat (map sheet_results sheets);
          tf = sum_list (map mr_final_amount rs);
          tv = sum_list (map (\<lambda>r. case mr_visa_amount r of Some v \<Rightarrow> v | None \<Rightarrow> 0) rs)
      in \<lparr> total_final_amount = tf,
           total_visa_amount = tv,
           matched_items = length (filter (\<lambda>r. mr_diff_status r = matched) rs),
           total_visa_items =
             length (filter (\<lambda>r. mr_visa_amount r \<noteq> None) rs) + unmatched_invoice_count,
           total_calculated_items = length rs,
           amount_reconciled_percentage = reconciled_percentage epsilon tf tv \<rparr>)"

section \<open>Python values, exceptions and strings\<close>

text \<open>
  The report that \<^verbatim>\<open>app.py\<close> and \<^verbatim>\<open>root_cause_analysis.py\<close> receive is an untyped
  nested dictionary. It is modelled as a JSON-like value; a dictionary is an association
  list with string keys, looked up with \<open>map_of\<close>. Floats are exact reals.
\<close>

datatype pyval =
    PNone
  | PBool bool
  | PInt int
  | PFloat real
  | PStr string
  | PList "pyval list"
  | PDict "(string \<times> pyval) list"

text \<open>
  The exception classes the modelled code can meet, all below \<^verbatim>\<open>Exception\<close>. An
  exception value carries its class and the text \<^verbatim>\<open>str(e)\<close> returns.
\<close>

datatype exn_class =
    Exception
  | KeyError
  | TypeError
  | AttributeError
  | ValueError
  | UnicodeEncodeError
  | OverflowError
  | OSError
  | PermissionError
  | SMTPException
  | SMTPAuthenticationError

datatype py_exn = Exn exn_class string

fun exn_class_of :: "py_exn \<Rightarrow> exn_class" where
  "exn_class_of (Exn c m) = c"

fun exn_str :: "py_exn \<Rightarrow> string" where
  "exn_str (Exn c m) = m"

text \<open>
  \<^verbatim>\<open>issubclass\<close> on the classes above: \<^verbatim>\<open>SMTPAuthenticationError\<close> derives from
  \<^verbatim>\<open>SMTPException\<close>, which derives from \<^verbatim>\<open>OSError\<close>, as \<^verbatim>\<open>PermissionError\<close> does;
  \<^verbatim>\<open>UnicodeEncodeError\<close> derives from \<^verbatim>\<open>ValueError\<close>; everything derives from
  \<^verbatim>\<open>Exception\<close>.
\<close>

fun is_subclass :: "exn_class \<Rightarrow> exn_class \<Rightarrow> bool" where
  "is_subclass c Exception = True"
| "is_subclass SMTPAuthenticationError SMTPException = True"
| "is_subclass SMTPAuthenticationError OSError = True"
| "is_subclass SMTPException OSError = True"
| "is_subclass PermissionError OSError = True"
| "is_subclass UnicodeEncodeError ValueError = True"
| "is_subclass c d = (c = d)"

definition bind_exn :: "py_exn + 'a \<Rightarrow> ('a \<Rightarrow> py_exn + 'b) \<Rightarrow> py_exn + 'b" where
  "bind_exn m f = (case m of Inl e \<Rightarrow> Inl e | Inr x \<Rightarrow> f x)"

fun type_name :: "pyval \<Rightarrow> string" where
  "type_name PNone = ''NoneType''"
| "type_name (PBool b) = ''bool''"
| "type_name (PInt i) = ''int''"
| "type_name (PFloat r) = ''float''"
| "type_name (PStr s) = ''str''"
| "type_name (PList l) = ''list''"
| "type_name (PDict d) = ''dict''"

text \<open>Truthiness, as \<^verbatim>\<open>if x:\<close> and \<^verbatim>\<open>x and y\<close> test it.\<close>

fun truthy :: "pyval \<Rightarrow> bool" where
  "truthy PNone = False"
| "truthy (PBool b) = b"
| "truthy (PInt i) = (i \<noteq> 0)"
| "truthy (PFloat r) = (r \<noteq> 0)"
| "truthy (PStr s) = (s \<noteq> [])"
| "truthy (PList l) = (l \<noteq> [])"
| "truthy (PDict d) = (d \<noteq> [])"

definition py_repr_str :: "string \<Rightarrow> string" where
  "py_repr_str k = [CHR 0x27] @ k @ [CHR 0x27]"

text \<open>\<^verbatim>\<open>v[k]\<close> with a string key: \<^verbatim>\<open>KeyError\<close> on a missing key, \<^verbatim>\<open>TypeError\<close> on a
  value that is not a dictionary.\<close>

fun py_getitem :: "pyval \<Rightarrow> string \<Rightarrow> py_exn + pyval" where
  "py_getitem (PDict d) k =
     (case map_of d k of
        Some v \<Rightarrow> Inr v
      | None \<Rightarrow> Inl (Exn KeyError (py_repr_str k)))"
| "py_getitem (PStr s) k = Inl (Exn TypeError ''string indices must be integers'')"
| "py_getitem (PList l) k =
     Inl (Exn TypeError ''list indices must be integers or slices, not str'')"
| "py_getitem v k =
     Inl (Exn TypeError (py_repr_str (type_name v) @ '' object is not subscriptable''))"

text \<open>\<^verbatim>\<open>v.get(k, default)\<close>: \<^verbatim>\<open>AttributeError\<close> on a value that is not a dictionary.\<close>

fun py_get :: "pyval \<Rightarrow> string \<Rightarrow> pyval \<Rightarrow> py_exn + pyval" where
  "py_get (PDict d) k dflt = (case map_of d k of Some v \<Rightarrow> Inr v | None \<Rightarrow> Inr dflt)"
| "py_get v k dflt =
     Inl (Exn AttributeError
            (py_repr_str (type_name v) @ '' object has no attribute '' @ py_repr_str ''get''))"

text \<open>The numeric value of a bool, an int or a float; no other value compares with
  an int.\<close>

fun py_num :: "pyval \<Rightarrow> real option" where
  "py_num (PBool b) = Some (if b then 1 else 0)"
| "py_num (PInt i) = Some (of_int i)"
| "py_num (PFloat r) = Some r"
| "py_num v = None"

definition py_ge_int :: "pyval \<Rightarrow> int \<Rightarrow> py_exn + bool" where
  "py_ge_int v n =
     (case py_num v of
        Some a \<Rightarrow> Inr (a \<ge> of_int n)
      | None \<Rightarrow>
          Inl (Exn TypeError
                 (py_repr_str ''>='' @ '' not supported between instances of ''
                  @ py_repr_str (type_name v) @ '' and '' @ py_repr_str ''int'')))"

definition py_lt_int :: "pyval \<Rightarrow> int \<Rightarrow> py_exn + bool" where
  "py_lt_int v n =
     (case py_num v of
        Some a \<Rightarrow> Inr (a < of_int n)
      | None \<Rightarrow>
          Inl (Exn TypeError
                 (py_repr_str ''<'' @ '' not supported between instances of ''
                  @ py_repr_str (type_name v) @ '' and '' @ py_repr_str ''int'')))"

text \<open>The decimal digits of a natural number, most significant first.\<close>

definition digit_char :: "nat \<Rightarrow> char" where
  "digit_char d = ''0123456789'' ! (d mod 10)"

function decimal :: "nat \<Rightarrow> string" where
  "decimal n = (if n div 10 = 0 then [digit_char n] else decimal (n div 10) @ [digit_char n])"
  by pat_completeness auto
termination
  by (relation "measure id") auto

text \<open>\<^verbatim>\<open>str(i)\<close> for an integer.\<close>

definition py_str_int :: "int \<Rightarrow> string" where
  "py_str_int i = (if 0 \<le> i then decimal (nat i) else CHR ''-'' # decimal (nat (- i)))"

definition lower_char :: "char \<Rightarrow> char" where
  "lower_char c =
     (case map_of (zip ''ABCDEFGHIJKLMNOPQRSTUVWXYZ'' ''abcdefghijklmnopqrstuvwxyz'') c of
        Some l \<Rightarrow> l
      | None \<Rightarrow> c)"

text \<open>\<^verbatim>\<open>str.lower()\<close> on the ASCII letters; bytes of other characters are kept.\<close>

definition lower_str :: "string \<Rightarrow> string" where
  "lower_str s = map lower_char s"

definition endswith :: "string \<Rightarrow> string \<Rightarrow> bool" where
  "endswith s suffix = (length suffix \<le> length s \<and> drop (length s - length suffix) s = suffix)"

definition startswith :: "string \<Rightarrow> string \<Rightarrow> bool" where
  "startswith s p = (take (length p) s = p)"

text \<open>\<^verbatim>\<open>sub in s\<close> on strings.\<close>

fun contains :: "string \<Rightarrow> string \<Rightarrow> bool" where
  "contains sub [] = (sub = [])"
| "contains sub (c # cs) = (startswith (c # cs) sub \<or> contains sub cs)"

text \<open>\<^verbatim>\<open>os.path.join\<close> of two components on POSIX.\<close>

definition path_join :: "string \<Rightarrow> string \<Rightarrow> string" where
  "path_join a b =
     (if startswith b ''/'' then b
      else if a = [] \<or> endswith a ''/'' then a @ b
      else a @ ''/'' @ b)"

declare decimal.simps [simp del]

section \<open>The alerting step of \<^verbatim>\<open>app.py\<close>\<close>

record email =
  subject :: string
  from_addr :: string
  to_addr :: string
  body :: string

text \<open>
  An SMTP session opened for a message either sends it (\<open>None\<close>) or raises. The log
  holds every session in order, with its outcome.
\<close>

type_synonym smtp_log = "(email \<times> py_exn option) list"

text \<open>
  The six paths \<^verbatim>\<open>map_files_in_folder\<close> returns and \<^verbatim>\<open>run_rate_analysis\<close> receives:
  a dictionary with exactly these keys, each a path or \<^verbatim>\<open>None\<close>.
\<close>

record file_mapping =
  fm_summary :: "string option"
  fm_card :: "string option"
  fm_international :: "string option"
  fm_domestic :: "string option"
  fm_dispute :: "string option"
  fm_invoice :: "string option"

datatype entry_kind = RegularFile | Directory | OtherEntry

text \<open>
  The configuration constants of \<^verbatim>\<open>app.py\<close> and the program's surroundings. The
  functions whose code is not among the source files (\<^verbatim>\<open>run_rate_analysis\<close>,
  \<^verbatim>\<open>save_uploaded_file\<close>) and the effects of the platform are parameters:
  \<^item> \<open>smtp_session slog msg\<close>: what connecting, \<^verbatim>\<open>starttls\<close>, \<^verbatim>\<open>login\<close> and
    \<^verbatim>\<open>send_message\<close> do for \<open>msg\<close> after the sessions of \<open>slog\<close>;
  \<^item> \<open>py_str\<close>: \<^verbatim>\<open>str(v)\<close> for a value that is not a string; \<open>fmt_fixed n x\<close>:
    \<^verbatim>\<open>format(x, '.nf')\<close>;
  \<^item> \<open>listdir p\<close>: \<^verbatim>\<open>os.path.exists(p)\<close> and \<^verbatim>\<open>os.listdir(p)\<close>: \<open>Inr None\<close> when
    \<open>p\<close> does not exist, otherwise the entries of \<open>p\<close> with their kinds
    (\<^verbatim>\<open>os.path.isfile\<close>, \<^verbatim>\<open>os.path.isdir\<close>), or the exception \<^verbatim>\<open>os.listdir\<close> raises
    (a directory that cannot be read);
  \<^item> \<open>save_report path report\<close>: writing the JSON file, \<open>Some e\<close> when it raises;
  \<^item> \<open>stdout_print s\<close>: \<^verbatim>\<open>print(s)\<close>, \<open>Some e\<close> when it raises (a standard output
    whose encoding cannot encode \<open>s\<close> raises \<^verbatim>\<open>UnicodeEncodeError\<close>).
\<close>

record env =
  EMAIL_ENABLED :: bool
  EMAIL_SENDER :: string
  EMAIL_RECIPIENT :: string
  smtp_session :: "smtp_log \<Rightarrow> email \<Rightarrow> py_exn option"
  py_str :: "pyval \<Rightarrow> string"
  fmt_fixed :: "nat \<Rightarrow> real \<Rightarrow> string"
  listdir :: "string \<Rightarrow> py_exn + (string \<times> entry_kind) list option"
  run_rate_analysis :: "file_mapping \<Rightarrow> py_exn + pyval"
  save_uploaded_file :: "string option \<Rightarrow> string \<Rightarrow> py_exn + string option"
  save_report :: "string \<Rightarrow> pyval \<Rightarrow> py_exn option"
  stdout_print :: "string \<Rightarrow> py_exn option"

text \<open>A replacement field \<^verbatim>\<open>{v}\<close> of an f-string.\<close>

definition fmt :: "env \<Rightarrow> pyval \<Rightarrow> string" where
  "fmt e v = (case v of PStr s \<Rightarrow> s | _ \<Rightarrow> py_str e v)"

definition warning_sign :: string where
  "warning_sign = [CHR 0xE2, CHR 0x9A, CHR 0xA0, CHR 0xEF, CHR 0xB8, CHR 0x8F]"

definition cross_mark :: string where
  "cross_mark = [CHR 0xE2, CHR 0x9D, CHR 0x8C]"

definition check_mark :: string where
  "check_mark = [CHR 0xE2, CHR 0x9C, CHR 0x85]"

definition envelope_sign :: string where
  "envelope_sign = [CHR 0xF0, CHR 0x9F, CHR 0x93, CHR 0xA7]"

definition bullet :: string where
  "bullet = [CHR 0xE2, CHR 0x80, CHR 0xA2]"

definition rule_line :: string where
  "rule_line = concat (replicate 47 [CHR 0xE2, CHR 0x94, CHR 0x81])"

text \<open>
  The integers \<^verbatim>\<open>float(i)\<close> accepts: those that round to a finite double. From
  \<open>2^1024 - 2^970\<close> on, in absolute value, the conversion raises \<^verbatim>\<open>OverflowError\<close>.
\<close>

definition int_fits_float :: "int \<Rightarrow> bool" where
  "int_fits_float i = (\<bar>i\<bar> < 2 ^ 1024 - 2 ^ 970)"

text \<open>
  \<^verbatim>\<open>format(v, '.nf')\<close>: defined on floats, booleans and the integers that fit a float;
  a larger integer raises \<^verbatim>\<open>OverflowError\<close>, a string \<^verbatim>\<open>ValueError\<close>, any other
  value \<^verbatim>\<open>TypeError\<close>.
\<close>

definition py_format_fixed :: "env \<Rightarrow> nat \<Rightarrow> pyval \<Rightarrow> py_exn + string" where
  "py_format_fixed e n v =
     (case v of
        PFloat r \<Rightarrow> Inr (fmt_fixed e n r)
      | PBool b \<Rightarrow> Inr (fmt_fixed e n (if b then 1 else 0))
      | PInt i \<Rightarrow>
          if int_fits_float i then Inr (fmt_fixed e n (of_int i))
          else Inl (Exn OverflowError ''int too large to convert to float'')
      | PStr s \<Rightarrow>
          Inl (Exn ValueError
                 (''Unknown format code '' @ py_repr_str ''f''
                  @ '' for object of type '' @ py_repr_str ''str''))
      | _ \<Rightarrow>
          Inl (Exn TypeError
                 (''unsupported format string passed to '' @ type_name v
                  @ ''.__format__'')))"

text \<open>
  Lines 92 to 130 of \<^verbatim>\<open>send_reconciliation_alert\<close>: the subject and the body. The
  summary fields are read in the order of the text, and the first missing one raises
  \<^verbatim>\<open>KeyError\<close>.
\<close>

definition alert_message :: "env \<Rightarrow> pyval \<Rightarrow> pyval \<Rightarrow> string \<Rightarrow> py_exn + email" where
  "alert_message e report amount_reconciled transaction_name =
     (let transaction_info = (if transaction_name \<noteq> [] then '' - '' @ transaction_name else []);
          field = (\<lambda>k. bind_exn (py_getitem report ''summary'') (\<lambda>s. py_getitem s k))
      in bind_exn (py_format_fixed e 2 amount_reconciled) (\<lambda>amount2.
         bind_exn (py_format_fixed e 4 amount_reconciled) (\<lambda>amount4.
         bind_exn (field ''total_final_amount_display'') (\<lambda>total_final.
         bind_exn (field ''total_visa_amount_display'') (\<lambda>total_visa.
         bind_exn (field ''fee_reconciled_display'') (\<lambda>fee_reconciled.
         bind_exn (field ''matched_items'') (\<lambda>matched_n.
         bind_exn (field ''total_visa_items'') (\<lambda>visa_n.
         bind_exn (field ''amount_match_display'') (\<lambda>amount_match.
         bind_exn (field ''total_mappings'') (\<lambda>mappings.
         bind_exn (field ''sheet_count'') (\<lambda>sheets.
           Inr \<lparr> subject = warning_sign @ '' Reconciliation Alert'' @ transaction_info @ '': ''
                           @ amount2 @ ''%'',
                 from_addr = EMAIL_SENDER e,
                 to_addr = EMAIL_RECIPIENT e,
                 body =
                   ''\<newline>Reconciliation Alert - Low Match Percentage Detected''
                   @ transaction_info @ ''\<newline>\<newline>''
                   @ ''CRITICAL METRICS:\<newline>'' @ rule_line @ ''\<newline>''
                   @ ''Amount Reconciled: '' @ amount4 @ ''% '' @ warning_sign
                   @ '' (Below 95% threshold)\<newline>\<newline>''
                   @ ''RECONCILIATION SUMMARY:\<newline>'' @ rule_line @ ''\<newline>''
                   @ bullet @ '' Calculated Total (INR): '' @ fmt e total_final @ ''\<newline>''
                   @ bullet @ '' VISA Invoice Total (INR): '' @ fmt e total_visa @ ''\<newline>''
                   @ bullet @ '' Fee Reconciled: '' @ fmt e fee_reconciled @ ''\<newline>''
                   @ bullet @ '' Items Reconciled: '' @ fmt e matched_n @ ''/'' @ fmt e visa_n
                   @ ''\<newline>''
                   @ bullet @ '' Amount Match Percentage: '' @ fmt e amount_match
                   @ ''\<newline>\<newline>''
                   @ ''ADDITIONAL DETAILS:\<newline>'' @ rule_line @ ''\<newline>''
                   @ bullet @ '' Total Fee Mappings: '' @ fmt e mappings @ ''\<newline>''
                   @ bullet @ '' Sheets Analyzed: '' @ fmt e sheets @ ''\<newline>\<newline>''
                   @ ''ACTION REQUIRED:\<newline>'' @ rule_line @ ''\<newline>''
                   @ ''The reconciliation percentage is below the acceptable threshold of 95%.\<newline>''
                   @ ''Please review the detailed reconciliation report and investigate discrepancies.\<newline>\<newline>''
                   @ ''This is an automated alert from the Card Reconciliation Tool.\<newline>'' \<rparr>)))))))))))"

text \<open>\<^verbatim>\<open>print(s)\<close> followed by \<^verbatim>\<open>return b\<close>.\<close>

definition print_return :: "env \<Rightarrow> string \<Rightarrow> bool \<Rightarrow> py_exn + bool" where
  "print_return e s b = (case stdout_print e s of Some x \<Rightarrow> Inl x | None \<Rightarrow> Inr b)"

text \<open>
  The \<^verbatim>\<open>try\<close> block of \<^verbatim>\<open>send_reconciliation_alert\<close> (lines 79 to 139): the result
  is the value returned or the exception raised, with the SMTP log. Each \<^verbatim>\<open>return\<close> of
  the block comes after a \<^verbatim>\<open>print\<close> (lines 82, 89 and 138), which may raise; lines 89
  and 138 format the amount first.
\<close>

definition alert_try :: "env \<Rightarrow> pyval \<Rightarrow> string \<Rightarrow> smtp_log \<Rightarrow> (py_exn + bool) \<times> smtp_log" where
  "alert_try e report transaction_name slog =
     (if \<not> EMAIL_ENABLED e
      then (print_return e (envelope_sign @ '' Email alerts disabled - skipping'') False, slog)
      else
        (case bind_exn (py_getitem report ''summary'')
                (\<lambda>s. py_getitem s ''amount_reconciled_percentage'') of
           Inl x \<Rightarrow> (Inl x, slog)
         | Inr amount_reconciled \<Rightarrow>
             (case py_ge_int amount_reconciled 95 of
                Inl x \<Rightarrow> (Inl x, slog)
              | Inr True \<Rightarrow>
                  (bind_exn (py_format_fixed e 2 amount_reconciled) (\<lambda>amount2.
                     print_return e
                       (check_mark @ '' Amount reconciled '' @ amount2
                        @ ''% >= 95% - no alert needed'') False),
                   slog)
              | Inr False \<Rightarrow>
                  (case alert_message e report amount_reconciled transaction_name of
                     Inl x \<Rightarrow> (Inl x, slog)
                   | Inr msg \<Rightarrow>
                       (case smtp_session e slog msg of
                          Some x \<Rightarrow> (Inl x, slog @ [(msg, Some x)])
                        | None \<Rightarrow>
                            (bind_exn (py_format_fixed e 2 amount_reconciled) (\<lambda>amount2.
                               print_return e
                                 (check_mark
                                  @ '' Alert email sent successfully! Amount Reconciled: ''
                                  @ amount2 @ ''%'') True),
                             slog @ [(msg, None)]))))))"

text \<open>
  \<^verbatim>\<open>send_reconciliation_alert\<close> with its three handlers (lines 141 to 149), tried in
  order. Each handler prints a line that holds \<^verbatim>\<open>str(e)\<close> and then returns
  \<^verbatim>\<open>False\<close>; an exception of that \<^verbatim>\<open>print\<close> is raised inside the handler and leaves
  the function, as an exception that no handler matched would.
\<close>

definition send_reconciliation_alert ::
    "env \<Rightarrow> pyval \<Rightarrow> string \<Rightarrow> smtp_log \<Rightarrow> (py_exn + bool) \<times> smtp_log" where
  "send_reconciliation_alert e report transaction_name slog =
     (case alert_try e report transaction_name slog of
        (Inr b, slog') \<Rightarrow> (Inr b, slog')
      | (Inl x, slog') \<Rightarrow>
          (if is_subclass (exn_class_of x) SMTPAuthenticationError
           then (print_return e
                   (cross_mark @ '' Email authentication failed: '' @ exn_str x) False, slog')
           else if is_subclass (exn_class_of x) SMTPException
           then (print_return e
                   (cross_mark @ '' SMTP error sending email: '' @ exn_str x) False, slog')
           else if is_subclass (exn_class_of x) Exception
           then (print_return e
                   (cross_mark @ '' Error sending email alert: '' @ exn_str x) False, slog')
           else (Inl x, slog')))"

section \<open>Transaction folders and batch processing\<close>

record folder_info =
  fi_name :: string
  fi_path :: string

text \<open>
  \<^verbatim>\<open>scan_transaction_folders\<close>: the sub-directories of \<open>base_path\<close>, sorted by name
  (\<^verbatim>\<open>sorted\<close> is stable, as \<open>sort_key\<close> is).
\<close>

definition scan_transaction_folders :: "env \<Rightarrow> string \<Rightarrow> py_exn + folder_info list" where
  "scan_transaction_folders e base_path =
     (case listdir e base_path of
        Inl x \<Rightarrow> Inl x
      | Inr None \<Rightarrow> Inr []
      | Inr (Some items) \<Rightarrow>
          Inr (sort_key fi_name
                 (map (\<lambda>(item, kind). \<lparr> fi_name = item, fi_path = path_join base_path item \<rparr>)
                    (filter (\<lambda>(item, kind). kind = Directory) items))))"

definition empty_file_mapping :: file_mapping where
  "empty_file_mapping =
     \<lparr> fm_summary = None, fm_card = None, fm_international = None,
       fm_domestic = None, fm_dispute = None, fm_invoice = None \<rparr>"

text \<open>The body of the loop of \<^verbatim>\<open>map_files_in_folder\<close> for one directory entry.\<close>

definition map_file :: "string \<Rightarrow> string \<times> entry_kind \<Rightarrow> file_mapping \<Rightarrow> file_mapping" where
  "map_file folder_path entry file_mapping =
     (let filename = fst entry;
          filepath = path_join folder_path filename;
          filename_lower = lower_str filename
      in if snd entry \<noteq> RegularFile then file_mapping
         else if \<not> (endswith filename ''.xlsx'' \<or> endswith filename ''.xls'') then file_mapping
         else if contains ''summary'' filename_lower
           then file_mapping\<lparr> fm_summary := Some filepath \<rparr>
         else if contains ''invoice'' filename_lower
           then file_mapping\<lparr> fm_invoice := Some filepath \<rparr>
         else if contains ''card'' filename_lower \<and> contains ''issuance'' filename_lower
           then file_mapping\<lparr> fm_card := Some filepath \<rparr>
         else if contains ''international'' filename_lower
           then file_mapping\<lparr> fm_international := Some filepath \<rparr>
         else if contains ''domestic'' filename_lower
           then file_mapping\<lparr> fm_domestic := Some filepath \<rparr>
         else if contains ''vrol'' filename_lower \<or> contains ''dispute'' filename_lower
           then file_mapping\<lparr> fm_dispute := Some filepath \<rparr>
         else file_mapping)"

definition map_files_in_folder :: "env \<Rightarrow> string \<Rightarrow> py_exn + file_mapping" where
  "map_files_in_folder e folder_path =
     (case listdir e folder_path of
        Inl x \<Rightarrow> Inl x
      | Inr None \<Rightarrow> Inr empty_file_mapping
      | Inr (Some entries) \<Rightarrow> Inr (fold (map_file folder_path) entries empty_file_mapping))"

text \<open>Truthiness of an optional path: \<^verbatim>\<open>None\<close> and the empty string are false.\<close>

definition path_present :: "string option \<Rightarrow> bool" where
  "path_present p = (case p of None \<Rightarrow> False | Some s \<Rightarrow> s \<noteq> [])"

text \<open>
  The test both batch paths make before alerting (lines 277 to 279 and 883 to 885):
  \<^verbatim>\<open>report and report.get("summary")\<close>, then
  \<^verbatim>\<open>report["summary"]["amount_reconciled_percentage"] < 95\<close>.
\<close>

definition below_threshold :: "pyval \<Rightarrow> py_exn + bool" where
  "below_threshold report =
     (if \<not> truthy report then Inr False
      else bind_exn (py_get report ''summary'' PNone) (\<lambda>summ.
        if \<not> truthy summ then Inr False
        else bind_exn (py_getitem report ''summary'') (\<lambda>s.
             bind_exn (py_getitem s ''amount_reconciled_percentage'') (\<lambda>amount_reconciled.
               py_lt_int amount_reconciled 95))))"

record job =
  progress :: string
  total_transactions :: nat
  processed :: nat
  current_transaction :: string

text \<open>
  The module-level state of \<^verbatim>\<open>app.py\<close> that the modelled functions touch:
  \<^verbatim>\<open>batch_jobs\<close>, \<^verbatim>\<open>last_rate_report\<close>, and the SMTP log.
\<close>

record app_state =
  batch_jobs :: "string \<rightharpoonup> job"
  last_rate_report :: pyval
  smtp_sessions :: smtp_log

text \<open>
  \<^verbatim>\<open>if job_id: batch_jobs[job_id][...] = ...\<close>: nothing for \<^verbatim>\<open>None\<close> or an empty id,
  \<^verbatim>\<open>KeyError\<close> for an id that is not registered.
\<close>

definition update_job :: "string option \<Rightarrow> (job \<Rightarrow> job) \<Rightarrow> app_state \<Rightarrow> py_exn + app_state" where
  "update_job job_id f st =
     (case job_id of
        None \<Rightarrow> Inr st
      | Some jid \<Rightarrow>
          if jid = [] then Inr st
          else (case batch_jobs st jid of
                  None \<Rightarrow> Inl (Exn KeyError (py_repr_str jid))
                | Some j \<Rightarrow> Inr (st\<lparr> batch_jobs := (batch_jobs st)(jid \<mapsto> f j) \<rparr>)))"

record batch_result =
  br_transaction_name :: string
  br_status :: string
  br_error :: "string option"
  br_report :: pyval
  br_email_sent :: bool

text \<open>
  The \<^verbatim>\<open>try\<close> block of the loop of \<^verbatim>\<open>process_transaction_batch\<close> (lines 271 to
  289): the report and the recorded \<^verbatim>\<open>email_sent\<close>, or the exception raised. The value
  \<^verbatim>\<open>send_reconciliation_alert\<close> returns is dropped (line 280).
\<close>

definition batch_try ::
    "env \<Rightarrow> file_mapping \<Rightarrow> smtp_log \<Rightarrow> (py_exn + pyval \<times> bool) \<times> smtp_log" where
  "batch_try e file_paths slog =
     (case run_rate_analysis e file_paths of
        Inl x \<Rightarrow> (Inl x, slog)
      | Inr report \<Rightarrow>
          (case below_threshold report of
             Inl x \<Rightarrow> (Inl x, slog)
           | Inr False \<Rightarrow> (Inr (report, False), slog)
           | Inr True \<Rightarrow>
               (case send_reconciliation_alert e report [] slog of
                  (Inl x, slog') \<Rightarrow> (Inl x, slog')
                | (Inr sent, slog') \<Rightarrow> (Inr (report, True), slog'))))"

text \<open>
  One iteration of the loop of \<^verbatim>\<open>process_transaction_batch\<close> (lines 251 to 298). The
  progress update and \<^verbatim>\<open>map_files_in_folder\<close> (line 258) come before the \<^verbatim>\<open>try\<close>
  block: an exception of either leaves the function.
\<close>

definition batch_transaction ::
    "env \<Rightarrow> string option \<Rightarrow> nat \<Rightarrow> folder_info \<Rightarrow> app_state \<Rightarrow> py_exn + batch_result \<times> app_state" where
  "batch_transaction e job_id idx folder st =
     bind_exn
       (update_job job_id
          (\<lambda>j. j\<lparr> progress := ''reconciling'', current_transaction := fi_name folder,
                   processed := idx \<rparr>) st)
       (\<lambda>st1.
          bind_exn (map_files_in_folder e (fi_path folder))
            (\<lambda>file_paths.
               if \<not> path_present (fm_summary file_paths)
               then Inr (\<lparr> br_transaction_name = fi_name folder, br_status = ''failed'',
                           br_error = Some ''Summary file not found'', br_report = PNone,
                           br_email_sent = False \<rparr>, st1)
               else (case batch_try e file_paths (smtp_sessions st1) of
                       (Inr (report, email_sent), slog') \<Rightarrow>
                         Inr (\<lparr> br_transaction_name = fi_name folder, br_status = ''success'',
                                br_error = None, br_report = report,
                                br_email_sent = email_sent \<rparr>,
                              st1\<lparr> smtp_sessions := slog' \<rparr>)
                     | (Inl x, slog') \<Rightarrow>
                         if is_subclass (exn_class_of x) Exception
                         then Inr (\<lparr> br_transaction_name = fi_name folder,
                                     br_status = ''failed'', br_error = Some (exn_str x),
                                     br_report = PNone, br_email_sent = False \<rparr>,
                                   st1\<lparr> smtp_sessions := slog' \<rparr>)
                         else Inl x)))"

text \<open>
  The loop of \<^verbatim>\<open>process_transaction_batch\<close> (lines 245 to 298). Each iteration starts
  with the \<^verbatim>\<open>print\<close> of line 249, outside the \<^verbatim>\<open>try\<close> block.
\<close>

fun batch_loop ::
    "env \<Rightarrow> string option \<Rightarrow> nat \<Rightarrow> folder_info list \<Rightarrow> batch_result list \<Rightarrow> app_state
      \<Rightarrow> py_exn + batch_result list \<times> app_state" where
  "batch_loop e job_id idx [] results st = Inr (results, st)"
| "batch_loop e job_id idx (folder # rest) results st =
     (case stdout_print e (''Processing '' @ fi_name folder @ ''...'') of
        Some x \<Rightarrow> Inl x
      | None \<Rightarrow>
          (case batch_transaction e job_id idx folder st of
             Inl x \<Rightarrow> Inl x
           | Inr (r, st') \<Rightarrow> batch_loop e job_id (Suc idx) rest (results @ [r]) st'))"

text \<open>\<^verbatim>\<open>process_transaction_batch\<close> (lines 225 to 304).\<close>

definition process_transaction_batch ::
    "env \<Rightarrow> string \<Rightarrow> string option \<Rightarrow> app_state \<Rightarrow> py_exn + batch_result list \<times> app_state" where
  "process_transaction_batch e base_path job_id st =
     bind_exn (scan_transaction_folders e base_path)
       (\<lambda>transaction_folders.
          bind_exn
            (update_job job_id
               (\<lambda>j. j\<lparr> progress := ''fetching'',
                        total_transactions := length transaction_folders,
                        processed := 0 \<rparr>) st)
            (\<lambda>st1. bind_exn (batch_loop e job_id 0 transaction_folders [] st1)
               (\<lambda>(results, st2).
                  bind_exn (update_job job_id (\<lambda>j. j\<lparr> progress := ''finalizing'' \<rparr>) st2)
                    (\<lambda>st3. Inr (results, st3)))))"

section \<open>Single transactions and the rates tab\<close>

text \<open>
  A transaction of the session, as \<^verbatim>\<open>upload_transactions\<close> builds it, with the keys
  \<^verbatim>\<open>process_single_transaction\<close> reads and writes.
\<close>

record transaction =
  txn_name :: string
  txn_files :: file_mapping
  txn_status :: string
  txn_report_file :: "string option"
  txn_email_sent :: "bool option"
  txn_amount_reconciled :: "pyval option"
  txn_error :: "string option"

record single_result =
  sr_index :: int
  sr_status :: string
  sr_email_sent :: "bool option"
  sr_error :: "string option"
  sr_transaction_name :: string

text \<open>
  The \<^verbatim>\<open>try\<close> block of \<^verbatim>\<open>process_single_transaction\<close> (lines 872 to 906). The
  transaction dictionary is updated in place, so the transaction comes back with the
  writes made before an exception. \<open>temp_dir\<close> is \<^verbatim>\<open>session.get('temp_dir')\<close>, which
  may be \<^verbatim>\<open>None\<close>; \<^verbatim>\<open>os.path.join\<close> then raises \<^verbatim>\<open>TypeError\<close>.
\<close>

definition single_try ::
    "env \<Rightarrow> int \<Rightarrow> transaction \<Rightarrow> string option \<Rightarrow> smtp_log
      \<Rightarrow> (py_exn + single_result) \<times> transaction \<times> smtp_log" where
  "single_try e idx txn temp_dir slog =
     (let txn1 = txn\<lparr> txn_status := ''processing'' \<rparr>
      in case run_rate_analysis e (txn_files txn1) of
           Inl x \<Rightarrow> (Inl x, txn1, slog)
         | Inr report \<Rightarrow>
             (case below_threshold report of
                Inl x \<Rightarrow> (Inl x, txn1, slog)
              | Inr below \<Rightarrow>
                  (case (if below then send_reconciliation_alert e report (txn_name txn1) slog
                         else (Inr False, slog)) of
                     (Inl x, slog1) \<Rightarrow> (Inl x, txn1, slog1)
                   | (Inr email_sent, slog1) \<Rightarrow>
                       (let report_filename = ''report_'' @ py_str_int idx @ ''.json''
                        in case temp_dir of
                             None \<Rightarrow>
                               (Inl (Exn TypeError
                                  ''expected str, bytes or os.PathLike object, not NoneType''),
                                txn1, slog1)
                           | Some d \<Rightarrow>
                               (case save_report e (path_join d report_filename) report of
                                  Some x \<Rightarrow> (Inl x, txn1, slog1)
                                | None \<Rightarrow>
                                    (let txn2 = txn1\<lparr> txn_status := ''completed'',
                                                      txn_report_file := Some report_filename,
                                                      txn_email_sent := Some email_sent \<rparr>
                                     in case bind_exn (py_getitem report ''summary'')
                                               (\<lambda>s. py_getitem s ''amount_reconciled_display'') of
                                          Inl x \<Rightarrow> (Inl x, txn2, slog1)
                                        | Inr disp \<Rightarrow>
                                            (Inr \<lparr> sr_index = idx, sr_status = ''success'',
                                                   sr_email_sent = Some email_sent,
                                                   sr_error = None,
                                                   sr_transaction_name = txn_name txn \<rparr>,
                                             txn2\<lparr> txn_amount_reconciled := Some disp \<rparr>,
                                             slog1)))))))"

text \<open>\<^verbatim>\<open>process_single_transaction\<close> with its handler (lines 908 to 918).\<close>

definition process_single_transaction ::
    "env \<Rightarrow> int \<Rightarrow> transaction \<Rightarrow> string option \<Rightarrow> smtp_log
      \<Rightarrow> (py_exn + single_result) \<times> transaction \<times> smtp_log" where
  "process_single_transaction e idx txn temp_dir slog =
     (case single_try e idx txn temp_dir slog of
        (Inr r, txn', slog') \<Rightarrow> (Inr r, txn', slog')
      | (Inl x, txn', slog') \<Rightarrow>
          if is_subclass (exn_class_of x) Exception
          then (Inr \<lparr> sr_index = idx, sr_status = ''failed'', sr_email_sent = None,
                      sr_error = Some (exn_str x), sr_transaction_name = txn_name txn \<rparr>,
                txn'\<lparr> txn_status := ''failed'', txn_error := Some (exn_str x) \<rparr>, slog')
          else (Inl x, txn', slog'))"

text \<open>
  The files of a POST to \<^verbatim>\<open>/rates-file\<close>: for each form field the file name of the
  upload, \<open>None\<close> when the field is absent. A \<^verbatim>\<open>FileStorage\<close> with an empty file name
  is false.
\<close>

record rates_form =
  summary_file :: "string option"
  card_file :: "string option"
  international_file :: "string option"
  domestic_file :: "string option"
  dispute_file :: "string option"
  invoice_file :: "string option"

text \<open>What \<^verbatim>\<open>rates_file\<close> hands to the template.\<close>

record rates_page =
  rp_report :: pyval
  rp_error_message :: "string option"

text \<open>
  The \<^verbatim>\<open>try\<close> block of \<^verbatim>\<open>rates_file\<close> (lines 712 to 740): the exception raised, if
  any, the local variable \<^verbatim>\<open>report\<close> at that point, and the state.
\<close>

definition rates_try ::
    "env \<Rightarrow> rates_form \<Rightarrow> string \<Rightarrow> app_state \<Rightarrow> py_exn option \<times> pyval \<times> app_state" where
  "rates_try e form temp_dir st =
     (if \<not> path_present (summary_file form)
      then (Some (Exn ValueError ''Summary file is required.''), PNone, st)
      else
        (case bind_exn (save_uploaded_file e (summary_file form) temp_dir) (\<lambda>summary_path.
              bind_exn (save_uploaded_file e (card_file form) temp_dir) (\<lambda>card_path.
              bind_exn (save_uploaded_file e (international_file form) temp_dir) (\<lambda>international_path.
              bind_exn (save_uploaded_file e (domestic_file form) temp_dir) (\<lambda>domestic_path.
              bind_exn (save_uploaded_file e (dispute_file form) temp_dir) (\<lambda>dispute_path.
              bind_exn (save_uploaded_file e (invoice_file form) temp_dir) (\<lambda>invoice_path.
                run_rate_analysis e
                  \<lparr> fm_summary = summary_path, fm_card = card_path,
                    fm_international = international_path, fm_domestic = domestic_path,
                    fm_dispute = dispute_path, fm_invoice = invoice_path \<rparr>)))))) of
           Inl x \<Rightarrow> (Some x, PNone, st)
         | Inr report \<Rightarrow>
             (let st1 = st\<lparr> last_rate_report := report \<rparr>
              in if \<not> truthy report then (None, report, st1)
                 else (case py_get report ''summary'' PNone of
                         Inl x \<Rightarrow> (Some x, report, st1)
                       | Inr summ \<Rightarrow>
                           if \<not> truthy summ then (None, report, st1)
                           else (case send_reconciliation_alert e report [] (smtp_sessions st1) of
                                   (Inl x, slog') \<Rightarrow>
                                     (Some x, report, st1\<lparr> smtp_sessions := slog' \<rparr>)
                                 | (Inr sent, slog') \<Rightarrow>
                                     (None, report, st1\<lparr> smtp_sessions := slog' \<rparr>))))))"

text \<open>
  A POST to \<^verbatim>\<open>rates_file\<close> (lines 703 to 747): an exception of the \<^verbatim>\<open>try\<close> block
  becomes the page's error message.
\<close>

definition rates_file :: "env \<Rightarrow> rates_form \<Rightarrow> string \<Rightarrow> app_state \<Rightarrow> py_exn + rates_page \<times> app_state" where
  "rates_file e form temp_dir st =
     (case rates_try e form temp_dir st of
        (None, report, st') \<Rightarrow> Inr (\<lparr> rp_report = report, rp_error_message = None \<rparr>, st')
      | (Some x, report, st') \<Rightarrow>
          if is_subclass (exn_class_of x) Exception
          then Inr (\<lparr> rp_report = report, rp_error_message = Some (exn_str x) \<rparr>, st')
          else Inl x)"

section \<open>Root cause analysis (\<^verbatim>\<open>root_cause_analysis.py\<close>)\<close>

text \<open>
  The surroundings of \<^verbatim>\<open>RootCauseAnalyzer\<close>: \<^verbatim>\<open>str\<close> on values that are not
  strings, the OpenAI chat completion (given the prompts sent so far and the prompt, the
  contents of the returned choices, or an exception), and
  \<^verbatim>\<open>_format_analysis_html\<close>, whose regular-expression rewriting of the answer is a
  parameter, and \<^verbatim>\<open>print\<close> (\<open>Some e\<close> when it raises).
\<close>

record rca_env =
  rca_str :: "pyval \<Rightarrow> string"
  chat_completion :: "string list \<Rightarrow> string \<Rightarrow> py_exn + string option list"
  format_analysis_html :: "string \<Rightarrow> string"
  rca_print :: "string \<Rightarrow> py_exn option"

record analyzer =
  api_key :: "string option"
  client :: bool

text \<open>\<^verbatim>\<open>__init__\<close>: \<open>arg\<close> is the argument, \<open>environ\<close> the value of
  \<^verbatim>\<open>OPENAI_API_KEY\<close>; \<open>client\<close> tells whether a client was created.\<close>

definition init_analyzer :: "string option \<Rightarrow> string option \<Rightarrow> analyzer" where
  "init_analyzer arg environ =
     (let k = (if path_present arg then arg else environ)
      in \<lparr> api_key = k, client = path_present k \<rparr>)"

definition check_openai_availability :: "analyzer \<Rightarrow> bool" where
  "check_openai_availability an = (client an \<and> api_key an \<noteq> None)"

definition is_space :: "char \<Rightarrow> bool" where
  "is_space c =
     (c \<in> set [CHR 0x09, CHR ''\<newline>'', CHR 0x0B, CHR 0x0C, CHR 0x0D,
                CHR 0x1C, CHR 0x1D, CHR 0x1E, CHR 0x1F, CHR '' ''])"

text \<open>\<^verbatim>\<open>str.strip()\<close> on ASCII white space.\<close>

definition strip :: "string \<Rightarrow> string" where
  "strip s = rev (dropWhile is_space (rev (dropWhile is_space s)))"

text \<open>
  \<^verbatim>\<open>generate_analysis\<close> (lines 35 to 73): the answer and the prompts sent to the API.
  A choice without content makes \<^verbatim>\<open>.strip()\<close> raise; the handler prints the exception
  and returns \<^verbatim>\<open>None\<close>, unless its \<^verbatim>\<open>print\<close> raises.
\<close>

definition generate_try ::
    "rca_env \<Rightarrow> analyzer \<Rightarrow> string \<Rightarrow> string list \<Rightarrow> (py_exn + string option) \<times> string list" where
  "generate_try r an prompt calls =
     (if \<not> check_openai_availability an then (Inr None, calls)
      else (case chat_completion r calls prompt of
              Inl x \<Rightarrow> (Inl x, calls @ [prompt])
            | Inr choices \<Rightarrow>
                (case choices of
                   [] \<Rightarrow>
                     (case rca_print r ''OpenAI API returned no choices'' of
                        Some x \<Rightarrow> (Inl x, calls @ [prompt])
                      | None \<Rightarrow> (Inr None, calls @ [prompt]))
                 | c # cs \<Rightarrow>
                     (case c of
                        None \<Rightarrow>
                          (Inl (Exn AttributeError
                                  (py_repr_str ''NoneType'' @ '' object has no attribute ''
                                   @ py_repr_str ''strip'')),
                           calls @ [prompt])
                      | Some content \<Rightarrow> (Inr (Some (strip content)), calls @ [prompt])))))"

definition generate_analysis ::
    "rca_env \<Rightarrow> analyzer \<Rightarrow> string \<Rightarrow> string list \<Rightarrow> (py_exn + string option) \<times> string list" where
  "generate_analysis r an prompt calls =
     (case generate_try r an prompt calls of
        (Inr a, calls') \<Rightarrow> (Inr a, calls')
      | (Inl x, calls') \<Rightarrow>
          if is_subclass (exn_class_of x) Exception
          then (case rca_print r (''Error generating analysis: '' @ exn_str x) of
                  Some y \<Rightarrow> (Inl y, calls')
                | None \<Rightarrow> (Inr None, calls'))
          else (Inl x, calls'))"

text \<open>Iterating a value with \<^verbatim>\<open>for\<close>: a list gives its elements, a dictionary its
  keys, a string its characters; other values raise \<^verbatim>\<open>TypeError\<close>.\<close>

fun py_iter :: "pyval \<Rightarrow> py_exn + pyval list" where
  "py_iter (PList l) = Inr l"
| "py_iter (PDict d) = Inr (map (\<lambda>kv. PStr (fst kv)) d)"
| "py_iter (PStr s) = Inr (map (\<lambda>c. PStr [c]) s)"
| "py_iter v = Inl (Exn TypeError (py_repr_str (type_name v) @ '' object is not iterable''))"

record discrepancy =
  d_fee_type :: pyval
  d_percentage_diff :: pyval
  d_diff_status :: pyval
  d_calculated_value :: pyval
  d_visa_value :: pyval
  d_calculation_method :: pyval
  d_percentage_diff_display :: pyval

text \<open>The body of the inner loop of \<^verbatim>\<open>_extract_discrepancies\<close> (lines 245 to 263):
  the entries one row appends.\<close>

definition extract_row :: "pyval \<Rightarrow> py_exn + discrepancy list" where
  "extract_row row =
     bind_exn (py_get row ''fee_type'' (PStr ''Unknown'')) (\<lambda>fee_type.
     bind_exn (py_get row ''percentage_diff'' PNone) (\<lambda>percentage_diff.
     bind_exn (py_get row ''diff_status'' (PStr [])) (\<lambda>diff_status.
     bind_exn (py_get row ''calculated_amount_display'' (PStr ''N/A'')) (\<lambda>calculated_amount_display.
     bind_exn (py_get row ''visa_amount_display'' (PStr ''N/A'')) (\<lambda>visa_amount_display.
     bind_exn (py_get row ''final_amount_display'' (PStr ''N/A'')) (\<lambda>final_amount_display.
     bind_exn (py_get row ''calculation_method'' (PStr ''N/A'')) (\<lambda>calculation_method.
       if diff_status \<in> set [PStr ''higher'', PStr ''lower'', PStr ''missing'']
       then bind_exn (py_get row ''percentage_diff_display'' (PStr ''N/A'')) (\<lambda>pdd.
              Inr [\<lparr> d_fee_type = fee_type,
                      d_percentage_diff = percentage_diff,
                      d_diff_status = diff_status,
                      d_calculated_value = final_amount_display,
                      d_visa_value = visa_amount_display,
                      d_calculation_method = calculation_method,
                      d_percentage_diff_display = pdd \<rparr>])
       else Inr [])))))))"

fun extract_rows :: "pyval list \<Rightarrow> py_exn + discrepancy list" where
  "extract_rows [] = Inr []"
| "extract_rows (row # rows) =
     bind_exn (extract_row row) (\<lambda>ds. bind_exn (extract_rows rows) (\<lambda>rest. Inr (ds @ rest)))"

definition extract_sheet :: "pyval \<Rightarrow> py_exn + discrepancy list" where
  "extract_sheet sheet =
     bind_exn (py_get sheet ''rows'' (PList [])) (\<lambda>rows. bind_exn (py_iter rows) extract_rows)"

fun extract_sheets :: "pyval list \<Rightarrow> py_exn + discrepancy list" where
  "extract_sheets [] = Inr []"
| "extract_sheets (sheet # sheets) =
     bind_exn (extract_sheet sheet) (\<lambda>ds. bind_exn (extract_sheets sheets) (\<lambda>rest. Inr (ds @ rest)))"

text \<open>\<^verbatim>\<open>_extract_discrepancies\<close> (lines 227 to 265).\<close>

definition extract_discrepancies :: "pyval \<Rightarrow> py_exn + discrepancy list" where
  "extract_discrepancies report =
     bind_exn (py_get report ''sheets'' (PList [])) (\<lambda>sheets.
       bind_exn (py_iter sheets) extract_sheets)"

text \<open>The fixed text that ends the prompt (lines 302 to 349).\<close>

definition analysis_task_text :: string where
  \<open>analysis_task_text =
     ''\<newline>''
     @ ''TASK:\<newline>''
     @ ''Provide a detailed, fee-specific root cause analysis of why these discrepancies exist.\<newline>''
     @ ''\<newline>''
     @ ''FORMATTING REQUIREMENTS:\<newline>''
     @ ''- Use clear structure with numbered sections and subsections\<newline>''
     @ ''- Use bullet points ('' @ bullet @ '') for listing causes\<newline>''
     @ ''- Keep each point concise and specific\<newline>''
     @ ''- Use proper paragraph breaks between sections\<newline>''
     @ ''- Reference exact fee names and percentages from the data\<newline>''
     @ ''\<newline>''
     @ ''ANALYSIS STRUCTURE:\<newline>''
     @ ''\<newline>''
     @ ''PART 1: FEE-BY-FEE ANALYSIS\<newline>''
     @ ''For EACH fee type listed above with a discrepancy, provide:\<newline>''
     @ ''- Fee name with variance percentage in parentheses (e.g., "Integrity Fee variance (+56.9%)")\<newline>''
     @ ''- Brief description of the discrepancy (calculated vs VISA)\<newline>''
     @ ''- "Possible causes:" followed by bullet points with specific root causes\<newline>''
     @ ''\<newline>''
     @ ''Example format for each fee:\<newline>''
     @ ''Fee Name variance (+X.X%)\<newline>''
     @ ''Brief description.\<newline>''
     @ ''Possible causes:\<newline>''
     @ bullet @ '' Specific cause related to this fee (e.g., tier application, rate mismatch)\<newline>''
     @ bullet @ '' Data quality issue specific to this fee\<newline>''
     @ bullet @ '' FX conversion or timing issue if applicable\<newline>''
     @ ''\<newline>''
     @ ''PART 2: MISSING FEES ANALYSIS\<newline>''
     @ ''If there are fees showing "Missing" status:\<newline>''
     @ ''- List which fees are missing\<newline>''
     @ ''- Explain what "Missing Calculations" means\<newline>''
     @ ''- Connect to reconciliation metrics (Item Reconciled, Match %)\<newline>''
     @ ''\<newline>''
     @ ''PART 3: OVERALL PATTERNS\<newline>''
     @ ''Identify cross-cutting issues:\<newline>''
     @ bullet @ '' Systematic problems affecting multiple fees\<newline>''
     @ bullet @ '' Common root causes across fee types\<newline>''
     @ bullet @ '' Data quality patterns\<newline>''
     @ ''\<newline>''
     @ ''IMPORTANT RULES:\<newline>''
     @ ''- Provide ONLY analysis, NO recommendations or action items\<newline>''
     @ ''- Be VERY specific - reference actual amounts, rates, and percentages\<newline>''
     @ ''- For each fee, identify the MOST PROBABLE specific root cause\<newline>''
     @ ''- Focus on technical/operational causes (formulas, data, rates, mapping)\<newline>''
     @ ''- Keep total length 400-600 words\<newline>''
     @ ''- Use technical terminology appropriately (FX conversion, tier application, fee mapping, etc.)\<newline>''
     @ ''\<newline>''
     @ ''ROOT CAUSE ANALYSIS:''\<close>

definition rca_fmt :: "rca_env \<Rightarrow> pyval \<Rightarrow> string" where
  "rca_fmt r v = (case v of PStr s \<Rightarrow> s | _ \<Rightarrow> rca_str r v)"

text \<open>The text one discrepancy adds to the prompt (lines 292 to 300), numbered from 1.\<close>

definition discrepancy_text :: "rca_env \<Rightarrow> nat \<Rightarrow> discrepancy \<Rightarrow> string" where
  "discrepancy_text r i disc =
     ''\<newline>'' @ decimal i @ ''. '' @ rca_fmt r (d_fee_type disc) @ ''\<newline>''
     @ ''   - Calculated Value: '' @ rca_fmt r (d_calculated_value disc) @ ''\<newline>''
     @ ''   - VISA Invoice Value: '' @ rca_fmt r (d_visa_value disc) @ ''\<newline>''
     @ ''   - Difference: '' @ rca_fmt r (d_percentage_diff_display disc) @ ''\<newline>''
     @ ''   - Status: '' @ rca_fmt r (d_diff_status disc) @ ''\<newline>''
     @ ''   - Calculation Method: '' @ rca_fmt r (d_calculation_method disc) @ ''\<newline>''"

fun discrepancies_text :: "rca_env \<Rightarrow> nat \<Rightarrow> discrepancy list \<Rightarrow> string" where
  "discrepancies_text r i [] = []"
| "discrepancies_text r i (disc # rest) =
     discrepancy_text r i disc @ discrepancies_text r (Suc i) rest"

text \<open>\<^verbatim>\<open>_build_analysis_prompt\<close> (lines 267 to 351).\<close>

definition build_analysis_prompt :: "rca_env \<Rightarrow> pyval \<Rightarrow> discrepancy list \<Rightarrow> py_exn + string" where
  "build_analysis_prompt r report discrepancies =
     bind_exn (py_get report ''summary'' (PDict [])) (\<lambda>summary.
     bind_exn (py_get summary ''amount_reconciled_display'' (PStr ''N/A'')) (\<lambda>amount_reconciled.
     bind_exn (py_get summary ''fee_reconciled_display'' (PStr ''N/A'')) (\<lambda>fee_reconciled.
     bind_exn (py_get summary ''matched_items'' (PInt 0)) (\<lambda>matched_n.
     bind_exn (py_get summary ''total_visa_items'' (PInt 0)) (\<lambda>visa_n.
     bind_exn (py_get summary ''total_final_amount_display'' (PStr ''N/A'')) (\<lambda>total_final.
     bind_exn (py_get summary ''total_visa_amount_display'' (PStr ''N/A'')) (\<lambda>total_visa.
       Inr (''You are a financial reconciliation expert. Analyze the following reconciliation discrepancies and provide a root cause analysis.\<newline>''
            @ ''\<newline>''
            @ ''RECONCILIATION SUMMARY:\<newline>''
            @ ''- Amount Reconciled: '' @ rca_fmt r amount_reconciled @ ''\<newline>''
            @ ''- Fee Reconciled: '' @ rca_fmt r fee_reconciled @ ''\<newline>''
            @ ''- Items Reconciled: '' @ rca_fmt r matched_n @ ''/'' @ rca_fmt r visa_n
            @ ''\<newline>''
            @ ''- Calculated Total: '' @ rca_fmt r total_final @ ''\<newline>''
            @ ''- VISA Invoice Total: '' @ rca_fmt r total_visa @ ''\<newline>''
            @ ''\<newline>''
            @ ''IDENTIFIED DISCREPANCIES:\<newline>''
            @ discrepancies_text r 1 discrepancies
            @ analysis_task_text))))))))"

text \<open>
  \<^verbatim>\<open>analyze_reconciliation_discrepancies\<close> (lines 75 to 111): the answer, or the
  exception that leaves the method (it has no handler of its own), and the prompts sent
  to the API.
\<close>

definition analyze_reconciliation_discrepancies ::
    "rca_env \<Rightarrow> analyzer \<Rightarrow> pyval \<Rightarrow> string list \<Rightarrow> (py_exn + string option) \<times> string list" where
  "analyze_reconciliation_discrepancies r an report calls =
     (case bind_exn (py_get report ''summary'' (PDict [])) (\<lambda>summary.
           bind_exn (py_get summary ''amount_reconciled_percentage'' (PInt 100)) (\<lambda>amount_reconciled.
             py_ge_int amount_reconciled 95)) of
        Inl x \<Rightarrow> (Inl x, calls)
      | Inr True \<Rightarrow> (Inr None, calls)
      | Inr False \<Rightarrow>
          if \<not> check_openai_availability an
          then (Inr (Some (cross_mark @ '' Root Cause Analysis unavailable: OpenAI API key is not configured. Please set the OPENAI_API_KEY environment variable.'')),
                calls)
          else (case extract_discrepancies report of
                  Inl x \<Rightarrow> (Inl x, calls)
                | Inr discrepancies \<Rightarrow>
                    if discrepancies = []
                    then (Inr (Some ''No significant discrepancies found to analyze.''), calls)
                    else (case build_analysis_prompt r report discrepancies of
                            Inl x \<Rightarrow> (Inl x, calls)
                          | Inr prompt \<Rightarrow>
                              (case generate_analysis r an prompt calls of
                                 (Inl x, calls') \<Rightarrow> (Inl x, calls')
                               | (Inr None, calls') \<Rightarrow> (Inr None, calls')
                               | (Inr (Some analysis), calls') \<Rightarrow>
                                   if analysis \<noteq> []
                                   then (Inr (Some (format_analysis_html r analysis)), calls')
                                   else (Inr (Some analysis), calls')))))"

text \<open>\<^verbatim>\<open>generate_root_cause_analysis\<close> (lines 354 to 366).\<close>

definition generate_root_cause_analysis ::
    "rca_env \<Rightarrow> string option \<Rightarrow> pyval \<Rightarrow> string option \<Rightarrow> string list
      \<Rightarrow> (py_exn + string option) \<times> string list" where
  "generate_root_cause_analysis r environ report arg calls =
     analyze_reconciliation_discrepancies r (init_analyzer arg environ) report calls"

text \<open>
  The prompt the narrative generator builds for a report: the composition of lines 96
  and 102 of \<^verbatim>\<open>analyze_reconciliation_discrepancies\<close>.
\<close>

definition analysis_prompt :: "rca_env \<Rightarrow> pyval \<Rightarrow> py_exn + string" where
  "analysis_prompt r report =
     bind_exn (extract_discrepancies report) (\<lambda>discrepancies.
       build_analysis_prompt r report discrepancies)"

section \<open>Well-formed inputs\<close>

text \<open>
  The summary fields \<^verbatim>\<open>send_reconciliation_alert\<close> interpolates into the message
  (lines 106 to 115). A report that \<^verbatim>\<open>run_rate_analysis\<close> produced carries them all;
  \<open>summary_complete\<close> says that a summary does.
\<close>

definition alert_fields :: "string list" where
  "alert_fields =
     [''total_final_amount_display'', ''total_visa_amount_display'', ''fee_reconciled_display'',
      ''matched_items'', ''total_visa_items'', ''amount_match_display'', ''total_mappings'',
      ''sheet_count'']"

text \<open>
  An amount that \<^verbatim>\<open>format\<close> can print with a fixed number of decimals: a float, a
  boolean, or an integer that fits a float.
\<close>

definition float_formattable :: "pyval \<Rightarrow> bool" where
  "float_formattable v =
     (case v of
        PInt i \<Rightarrow> int_fits_float i
      | PFloat r \<Rightarrow> True
      | PBool b \<Rightarrow> True
      | _ \<Rightarrow> False)"

definition summary_complete :: "pyval \<Rightarrow> bool" where
  "summary_complete s =
     list_all (\<lambda>k. case py_getitem s k of Inr v \<Rightarrow> True | Inl x \<Rightarrow> False) alert_fields"

text \<open>A standard output on which no \<^verbatim>\<open>print\<close> raises.\<close>

definition prints_ok :: "env \<Rightarrow> bool" where
  "prints_ok e = (\<forall>s. stdout_print e s = None)"

text \<open>
  A job id is usable when it is \<^verbatim>\<open>None\<close> or empty (no progress is tracked) or a key of
  \<^verbatim>\<open>batch_jobs\<close>, as \<^verbatim>\<open>start_batch_analysis\<close> makes it before it starts the batch.
\<close>

definition job_registered :: "string option \<Rightarrow> app_state \<Rightarrow> bool" where
  "job_registered job_id st =
     (case job_id of None \<Rightarrow> True | Some jid \<Rightarrow> jid = [] \<or> batch_jobs st jid \<noteq> None)"

text \<open>
  The state of the module right after import.
\<close>

definition fresh_state :: app_state where
  "fresh_state = \<lparr> batch_jobs = Map.empty, last_rate_report = PNone, smtp_sessions = [] \<rparr>"

text \<open>
  The outcome of one folder processed on its own: one iteration of the loop, without
  progress tracking, from the fresh state.
\<close>

definition reconcile_alone :: "env \<Rightarrow> folder_info \<Rightarrow> py_exn + batch_result" where
  "reconcile_alone e folder = map_sum id fst (batch_transaction e None 0 folder fresh_state)"

text \<open>
  The dictionary the batch records for a failed transaction (lines 262 to 268 and 292 to
  298).
\<close>

definition failed_result :: "string \<Rightarrow> string \<Rightarrow> batch_result" where
  "failed_result name msg =
     \<lparr> br_transaction_name = name, br_status = ''failed'', br_error = Some msg,
       br_report = PNone, br_email_sent = False \<rparr>"

text \<open>
  The result the loop records for one folder whose files were mapped to \<open>file_paths\<close>,
  read off \<open>batch_transaction\<close>; \<open>batch_transaction_result\<close> below proves that it is.
\<close>

definition folder_result :: "env \<Rightarrow> folder_info \<Rightarrow> file_mapping \<Rightarrow> batch_result" where
  "folder_result e folder file_paths =
     (if \<not> path_present (fm_summary file_paths)
      then failed_result (fi_name folder) ''Summary file not found''
      else (case bind_exn (run_rate_analysis e file_paths)
                   (\<lambda>report. bind_exn (below_threshold report) (\<lambda>b. Inr (report, b))) of
              Inl x \<Rightarrow> failed_result (fi_name folder) (exn_str x)
            | Inr (report, b) \<Rightarrow>
                \<lparr> br_transaction_name = fi_name folder, br_status = ''success'',
                  br_error = None, br_report = report, br_email_sent = b \<rparr>))"

text \<open>The files of a folder can be listed: \<^verbatim>\<open>map_files_in_folder\<close> does not raise.\<close>

definition folder_listed :: "env \<Rightarrow> folder_info \<Rightarrow> bool" where
  "folder_listed e folder =
     (case map_files_in_folder e (fi_path folder) of Inr file_paths \<Rightarrow> True | Inl x \<Rightarrow> False)"

text \<open>
  Shape predicates on report values.
\<close>

definition is_dict :: "pyval \<Rightarrow> bool" where
  "is_dict v = (case v of PDict d \<Rightarrow> True | _ \<Rightarrow> False)"

definition is_list :: "pyval \<Rightarrow> bool" where
  "is_list v = (case v of PList l \<Rightarrow> True | _ \<Rightarrow> False)"

text \<open>
  \<^verbatim>\<open>v.get(k, dflt)\<close> on a value known to be a dictionary.
\<close>

definition dict_get :: "pyval \<Rightarrow> string \<Rightarrow> pyval \<Rightarrow> pyval" where
  "dict_get v k dflt = (case py_get v k dflt of Inr x \<Rightarrow> x | Inl x \<Rightarrow> dflt)"

definition list_items :: "pyval \<Rightarrow> pyval list" where
  "list_items v = (case v of PList l \<Rightarrow> l | _ \<Rightarrow> [])"

text \<open>
  The rows of a sheet, the sheets of a report, and all rows of a report in the order
  \<^verbatim>\<open>_extract_discrepancies\<close> visits them.
\<close>

definition sheet_rows :: "pyval \<Rightarrow> pyval list" where
  "sheet_rows sheet = list_items (dict_get sheet ''rows'' (PList []))"

definition report_sheets :: "pyval \<Rightarrow> pyval list" where
  "report_sheets report = list_items (dict_get report ''sheets'' (PList []))"

definition report_rows :: "pyval \<Rightarrow> pyval list" where
  "report_rows report = concat (map sheet_rows (report_sheets report))"

text \<open>
  A report has the shape of section 3 of the specification when it is a dictionary whose
  \<^verbatim>\<open>sheets\<close> is a list of dictionaries, each with a list \<^verbatim>\<open>rows\<close> of dictionaries.
\<close>

definition well_shaped_sheet :: "pyval \<Rightarrow> bool" where
  "well_shaped_sheet sheet =
     (is_dict sheet \<and> is_list (dict_get sheet ''rows'' (PList []))
      \<and> list_all is_dict (sheet_rows sheet))"

definition well_shaped :: "pyval \<Rightarrow> bool" where
  "well_shaped report =
     (is_dict report \<and> is_list (dict_get report ''sheets'' (PList []))
      \<and> list_all well_shaped_sheet (report_sheets report))"

text \<open>
  A row whose \<^verbatim>\<open>diff_status\<close> is \<^verbatim>\<open>higher\<close>, \<^verbatim>\<open>lower\<close> or \<^verbatim>\<open>missing\<close>.
\<close>

definition is_discrepancy :: "pyval \<Rightarrow> bool" where
  "is_discrepancy row =
     (dict_get row ''diff_status'' (PStr []) \<in> set [PStr ''higher'', PStr ''lower'', PStr ''missing''])"

text \<open>
  A directory entry that \<^verbatim>\<open>map_files_in_folder\<close> takes for the summary file: a regular
  Excel file whose lower-cased name contains \<^verbatim>\<open>summary\<close>.
\<close>

definition is_summary_file :: "string \<times> entry_kind \<Rightarrow> bool" where
  "is_summary_file entry =
     (snd entry = RegularFile
      \<and> (endswith (fst entry) ''.xlsx'' \<or> endswith (fst entry) ''.xls'')
      \<and> contains ''summary'' (lower_str (fst entry)))"

section \<open>Example inputs\<close>

definition example_fee_lines :: "FeeLine list" where
  "example_fee_lines =
     [\<lparr> fl_fee_type = ''A'', fl_rate_chart = ''X'', fl_calculation_method = ''flat'',
        fl_raw_amount = 100, fl_exchange_rate = Some 83, fl_final_amount = 8300 \<rparr>,
      \<lparr> fl_fee_type = ''IntegrityFee'', fl_rate_chart = ''A'', fl_calculation_method = ''flat'',
        fl_raw_amount = 5, fl_exchange_rate = None, fl_final_amount = 5 \<rparr>]"

definition example_invoice_lines :: "InvoiceLine list" where
  "example_invoice_lines =
     [\<lparr> il_fee_type = ''A'', il_rate_chart = ''X'', il_visa_amount = 8200 \<rparr>,
      \<lparr> il_fee_type = ''ServiceFee'', il_rate_chart = ''B'', il_visa_amount = 10 \<rparr>]"

definition example_sheets :: "SheetResult list" where
  "example_sheets =
     [\<lparr> sheet_name = ''Sheet1'',
        sheet_results =
          [\<lparr> mr_fee_type = ''ServiceFee'', mr_rate_chart = ''B'', mr_calculation_method = ''flat'',
             mr_final_amount = 50, mr_visa_amount = Some 0, mr_exchange_rate = None,
             mr_percentage_diff = Some PosInfinite, mr_diff_status = higher \<rparr>] \<rparr>]"

definition example_summary :: "real \<Rightarrow> string \<Rightarrow> pyval" where
  "example_summary amount display =
     PDict [(''amount_reconciled_percentage'', PFloat amount),
            (''amount_reconciled_display'', PStr display),
            (''total_final_amount_display'', PStr ''8,300.00''),
            (''total_visa_amount_display'', PStr ''8,739.41''),
            (''fee_reconciled_display'', PStr ''0.00%''),
            (''matched_items'', PInt 0),
            (''total_visa_items'', PInt 1),
            (''amount_match_display'', PStr ''94.97%''),
            (''total_mappings'', PInt 1),
            (''sheet_count'', PInt 1)]"

definition example_report :: "real \<Rightarrow> string \<Rightarrow> pyval" where
  "example_report amount display =
     PDict [(''summary'', example_summary amount display),
            (''sheets'', PList []),
            (''warnings'', PList [])]"

definition example_env :: env where
  "example_env =
     \<lparr> EMAIL_ENABLED = True,
       EMAIL_SENDER = ''sender@example.com'',
       EMAIL_RECIPIENT = ''ops@example.com'',
       smtp_session = (\<lambda>slog msg. None),
       py_str = (\<lambda>v. ''?''),
       fmt_fixed = (\<lambda>n x. ''#''),
       listdir = (\<lambda>p. Inr None),
       run_rate_analysis = (\<lambda>fm. Inr PNone),
       save_uploaded_file = (\<lambda>f d. Inr f),
       save_report = (\<lambda>p r. None),
       stdout_print = (\<lambda>s. None) \<rparr>"

definition example_listdir :: "string \<Rightarrow> py_exn + (string \<times> entry_kind) list option" where
  "example_listdir p =
     (if p = ''/data'' then
        Inr (Some [(''txn_c'', Directory), (''txn_a'', Directory), (''readme.txt'', RegularFile),
                   (''txn_b'', Directory)])
      else if p = ''/data/txn_a'' then
        Inr (Some [(''Summary_Jan.xlsx'', RegularFile), (''VISA_Invoice.xlsx'', RegularFile)])
      else if p = ''/data/txn_b'' then
        Inr (Some [(''Invoice.xlsx'', RegularFile), (''summary.txt'', RegularFile)])
      else if p = ''/data/txn_c'' then
        Inr (Some [(''summary.xls'', RegularFile)])
      else if p = ''/locked'' then
        Inr (Some [(''txn_z'', Directory), (''txn_a'', Directory)])
      else if p = ''/locked/txn_a'' then
        Inl (Exn PermissionError ''[Errno 13] Permission denied'')
      else if p = ''/locked/txn_z'' then
        Inr (Some [(''summary.xlsx'', RegularFile)])
      else Inr None)"

definition example_run :: "file_mapping \<Rightarrow> py_exn + pyval" where
  "example_run fm =
     (if fm_summary fm = Some ''/data/txn_a/Summary_Jan.xlsx''
      then Inl (Exn ValueError ''Worksheet named Rates not found'')
      else Inr (example_report 50 ''50.00%''))"

definition example_batch_env :: env where
  "example_batch_env =
     example_env\<lparr> EMAIL_ENABLED := False, listdir := example_listdir,
                  run_rate_analysis := example_run \<rparr>"

definition example_state :: app_state where
  "example_state =
     \<lparr> batch_jobs =
         [''job-1'' \<mapsto> \<lparr> progress = ''initializing'', total_transactions = 0, processed = 0,
                          current_transaction = [] \<rparr>],
       last_rate_report = PNone,
       smtp_sessions = [] \<rparr>"

definition example_txn :: "string \<Rightarrow> file_mapping \<Rightarrow> transaction" where
  "example_txn name files =
     \<lparr> txn_name = name, txn_files = files, txn_status = ''pending'', txn_report_file = None,
       txn_email_sent = None, txn_amount_reconciled = None, txn_error = None \<rparr>"

definition example_rca_env :: rca_env where
  "example_rca_env =
     \<lparr> rca_str = (\<lambda>v. ''?''),
       chat_completion = (\<lambda>calls prompt. Inr [Some '' Integrity Fee variance (+56.9%) '']),
       format_analysis_html = (\<lambda>s. ''<p>'' @ s @ ''</p>''),
       rca_print = (\<lambda>s. None) \<rparr>"

definition example_row :: "string \<Rightarrow> string \<Rightarrow> string \<Rightarrow> pyval" where
  "example_row fee status pdd =
     PDict [(''fee_type'', PStr fee), (''diff_status'', PStr status),
            (''percentage_diff_display'', PStr pdd),
            (''final_amount_display'', PStr ''8,300.00''),
            (''visa_amount_display'', PStr ''8,200.00''),
            (''calculation_method'', PStr ''flat'')]"

definition example_rows_report :: "pyval list \<Rightarrow> pyval" where
  "example_rows_report sheets =
     PDict [(''summary'', example_summary 50 ''50.00%''), (''sheets'', PList sheets)]"

definition example_report_one :: pyval where
  "example_report_one =
     example_rows_report
       [PDict [(''name'', PStr ''Sheet1''),
               (''rows'', PList [example_row ''Integrity Fee'' ''higher'' ''+56.90%'',
                                 example_row ''Service Fee'' ''matched'' ''+0.10%''])],
        PDict [(''name'', PStr ''Sheet2''),
               (''rows'', PList [example_row ''Network Fee'' ''missing'' ''N/A''])]]"

definition example_report_two :: pyval where
  "example_report_two =
     example_rows_report
       [PDict [(''name'', PStr ''All''),
               (''rows'', PList [example_row ''Acquirer Fee'' ''matched'' ''-0.50%'',
                                 example_row ''Integrity Fee'' ''higher'' ''+56.90%'',
                                 example_row ''Network Fee'' ''missing'' ''N/A'',
                                 example_row ''Card Fee'' ''matched'' ''0.00%''])]]"



definition ascii_stdout :: "string \<Rightarrow> py_exn option" where
  "ascii_stdout s =
     (if list_ex digit7 s
      then Some (Exn UnicodeEncodeError
                   (py_repr_str ''ascii'' @ '' codec cannot encode the text''))
      else None)"

definition example_ascii_env :: env where
  "example_ascii_env = example_env\<lparr> stdout_print := ascii_stdout \<rparr>"

definition example_auth_env :: env where
  "example_auth_env =
     example_env\<lparr> listdir := example_listdir, run_rate_analysis := example_run,
                  smtp_session := (\<lambda>l m. Some (Exn SMTPAuthenticationError ''535 bad login'')) \<rparr>"

definition example_sending_env :: env where
  "example_sending_env =
     example_env\<lparr> listdir := example_listdir, run_rate_analysis := example_run \<rparr>"

section \<open>Properties of the reconciliation engine\<close>

lemma match_line_status:
  "(mr_diff_status (match_line m fl) = missing) = (mr_visa_amount (match_line m fl) = None)"
proof (cases "m (fl_fee_type fl, fl_rate_chart fl)")
  case None
  then show ?thesis by (simp add: match_line_def)
next
  case (Some il)
  have "classify d \<noteq> missing" for d
    by (cases d) simp_all
  with Some show ?thesis by (simp add: match_line_def Let_def)
qed

lemma match_line_classified:
  assumes "mr_visa_amount (match_line m fl) = Some v"
  shows "mr_percentage_diff (match_line m fl) = Some (percentage_diff (mr_final_amount (match_line m fl)) v)
       \<and> mr_diff_status (match_line m fl) = classify (percentage_diff (mr_final_amount (match_line m fl)) v)"
  using assms by (auto simp: match_line_def Let_def split: option.splits)

lemma exactly_one_status:
  "length (filter (\<lambda>s. st = s) [matched, higher, lower, missing]) = 1"
  by (cases st) simp_all

text \<open>
  C2. Every result the matcher produces carries exactly one of the four statuses; the
  status is \<open>missing\<close> exactly when there is no invoice amount; and when there is one, the
  status is \<open>classify\<close> (a function of the percentage difference and of the fixed
  \<open>TOLERANCE\<close> alone) applied to the result's percentage difference.
\<close>

theorem match_status_classification:
  "\<forall>r \<in> set (match fee_lines invoice_lines).
     length (filter (\<lambda>s. mr_diff_status r = s) [matched, higher, lower, missing]) = 1
     \<and> ((mr_diff_status r = missing) = (mr_visa_amount r = None))
     \<and> (mr_visa_amount r \<noteq> None \<longrightarrow>
          (\<exists>d. mr_percentage_diff r = Some d \<and> mr_diff_status r = classify d))"
proof
  fix r
  assume "r \<in> set (match fee_lines invoice_lines)"
  then obtain fl where r: "r = match_line (invoice_map invoice_lines) fl"
    by (auto simp: match_def)
  have one: "length (filter (\<lambda>s. mr_diff_status r = s) [matched, higher, lower, missing]) = 1"
    by (rule exactly_one_status)
  have miss: "(mr_diff_status r = missing) = (mr_visa_amount r = None)"
    unfolding r by (rule match_line_status)
  have cls: "mr_visa_amount r \<noteq> None \<longrightarrow>
      (\<exists>d. mr_percentage_diff r = Some d \<and> mr_diff_status r = classify d)"
  proof
    assume "mr_visa_amount r \<noteq> None"
    then obtain v where "mr_visa_amount (match_line (invoice_map invoice_lines) fl) = Some v"
      unfolding r by auto
    from match_line_classified [OF this] show
      "\<exists>d. mr_percentage_diff r = Some d \<and> mr_diff_status r = classify d"
      unfolding r by blast
  qed
  from one miss cls show
    "length (filter (\<lambda>s. mr_diff_status r = s) [matched, higher, lower, missing]) = 1
     \<and> ((mr_diff_status r = missing) = (mr_visa_amount r = None))
     \<and> (mr_visa_amount r \<noteq> None \<longrightarrow>
          (\<exists>d. mr_percentage_diff r = Some d \<and> mr_diff_status r = classify d))"
    by blast
qed

lemma example_match:
  "match example_fee_lines example_invoice_lines =
     [\<lparr> mr_fee_type = ''A'', mr_rate_chart = ''X'', mr_calculation_method = ''flat'',
        mr_final_amount = 8300, mr_visa_amount = Some 8200, mr_exchange_rate = Some 83,
        mr_percentage_diff = Some (Finite (100 / 8200 * 100)), mr_diff_status = higher \<rparr>,
      \<lparr> mr_fee_type = ''IntegrityFee'', mr_rate_chart = ''A'', mr_calculation_method = ''flat'',
        mr_final_amount = 5, mr_visa_amount = None, mr_exchange_rate = None,
        mr_percentage_diff = None, mr_diff_status = missing \<rparr>]"
  by (simp add: match_def match_line_def invoice_map_def example_fee_lines_def
      example_invoice_lines_def percentage_diff_def TOLERANCE_def)

theorem match_status_classification_witness:
  "(let r = hd (match example_fee_lines example_invoice_lines)
    in r \<in> set (match example_fee_lines example_invoice_lines)
       \<and> mr_diff_status r = higher \<and> mr_visa_amount r = Some 8200
       \<and> (\<exists>d. mr_percentage_diff r = Some d \<and> mr_diff_status r = classify d))
   \<and> (let r = last (match example_fee_lines example_invoice_lines)
      in r \<in> set (match example_fee_lines example_invoice_lines)
         \<and> mr_diff_status r = missing \<and> mr_visa_amount r = None)"
  using match_status_classification [of example_fee_lines example_invoice_lines]
  by (simp add: example_match)

text \<open>
  C3. For a calculated line paired with an invoice line whose amount is not zero, the
  percentage difference is \<open>(final_amount - visa_amount) / visa_amount * 100\<close>, and the
  line is \<open>matched\<close> when its absolute value is at most 1.0, \<open>higher\<close> when it exceeds 1.0
  and \<open>lower\<close> when it is below -1.0. A calculated 100 against an invoiced 99.00 is
  \<open>higher\<close>; against 99.01 it is \<open>matched\<close>.
\<close>

theorem percentage_diff_tolerance:
  assumes "i < length fee_lines"
    and "invoice_map invoice_lines (fl_fee_type (fee_lines ! i), fl_rate_chart (fee_lines ! i)) = Some il"
    and "il_visa_amount il \<noteq> 0"
  shows "(let r = match fee_lines invoice_lines ! i;
              d = (fl_final_amount (fee_lines ! i) - il_visa_amount il) / il_visa_amount il * 100
          in mr_percentage_diff r = Some (Finite d)
             \<and> (\<bar>d\<bar> \<le> 1.0 \<longrightarrow> mr_diff_status r = matched)
             \<and> (d > 1.0 \<longrightarrow> mr_diff_status r = higher)
             \<and> (d < - 1.0 \<longrightarrow> mr_diff_status r = lower))
         \<and> classify (percentage_diff 100 99.00) = higher
         \<and> classify (percentage_diff 100 99.01) = matched"
proof -
  define fl where "fl = fee_lines ! i"
  define d where "d = (fl_final_amount fl - il_visa_amount il) / il_visa_amount il * 100"
  define r where "r = match fee_lines invoice_lines ! i"
  have r_eq: "r = match_line (invoice_map invoice_lines) fl"
    using assms(1) by (simp add: r_def fl_def match_def)
  have pd: "mr_percentage_diff r = Some (Finite d)"
    using assms(2,3) by (simp add: r_eq fl_def d_def match_line_def percentage_diff_def)
  have st: "mr_diff_status r = classify (Finite d)"
    using assms(2,3) by (simp add: r_eq fl_def d_def match_line_def percentage_diff_def)
  have c1: "\<bar>d\<bar> \<le> 1.0 \<longrightarrow> mr_diff_status r = matched"
    by (simp add: st TOLERANCE_def)
  have c2: "d > 1.0 \<longrightarrow> mr_diff_status r = higher"
    by (simp add: st TOLERANCE_def)
  have c3: "d < - 1.0 \<longrightarrow> mr_diff_status r = lower"
    by (simp add: st TOLERANCE_def)
  have ex1: "classify (percentage_diff 100 99.00) = higher"
    by (simp add: percentage_diff_def TOLERANCE_def)
  have ex2: "classify (percentage_diff 100 99.01) = matched"
    by (simp add: percentage_diff_def TOLERANCE_def)
  from pd c1 c2 c3 ex1 ex2 show ?thesis
    unfolding Let_def r_def [symmetric] fl_def [symmetric] d_def [symmetric] by blast
qed

theorem percentage_diff_tolerance_witness:
  "0 < length example_fee_lines
   \<and> invoice_map example_invoice_lines
        (fl_fee_type (example_fee_lines ! 0), fl_rate_chart (example_fee_lines ! 0))
      = Some \<lparr> il_fee_type = ''A'', il_rate_chart = ''X'', il_visa_amount = 8200 \<rparr>
   \<and> mr_percentage_diff (match example_fee_lines example_invoice_lines ! 0)
      = Some (Finite ((8300 - 8200) / 8200 * 100))
   \<and> mr_diff_status (match example_fee_lines example_invoice_lines ! 0) = higher"
proof -
  have len: "0 < length example_fee_lines"
    by (simp add: example_fee_lines_def)
  have look: "invoice_map example_invoice_lines
        (fl_fee_type (example_fee_lines ! 0), fl_rate_chart (example_fee_lines ! 0))
      = Some \<lparr> il_fee_type = ''A'', il_rate_chart = ''X'', il_visa_amount = 8200 \<rparr>"
    by (simp add: invoice_map_def example_invoice_lines_def example_fee_lines_def)
  have nz: "il_visa_amount \<lparr> il_fee_type = ''A'', il_rate_chart = ''X'', il_visa_amount = 8200 \<rparr> \<noteq> 0"
    by simp
  from percentage_diff_tolerance [OF len look nz] len look show ?thesis
    by (simp add: Let_def example_fee_lines_def)
qed

text \<open>
  C4. For every aggregation input and every positive \<open>epsilon\<close>, the summary's
  \<open>amount_reconciled_percentage\<close> is
  \<open>100 * (1 - |total_final_amount - total_visa_amount| / max total_visa_amount epsilon)\<close>
  floored at 0 and capped at 100, and therefore lies between 0 and 100, also when the
  invoice total is zero.
\<close>

theorem amount_reconciled_percentage_clamped:
  assumes "0 < epsilon"
  shows "(let s = aggregate epsilon sheets unmatched_invoice_count;
              raw = 100 * (1 - \<bar>total_final_amount s - total_visa_amount s\<bar>
                                 / max (total_visa_amount s) epsilon)
          in amount_reconciled_percentage s
               = (if raw < 0 then 0 else if raw > 100 then 100 else raw)
             \<and> 0 \<le> amount_reconciled_percentage s
             \<and> amount_reconciled_percentage s \<le> 100
             \<and> max (total_visa_amount s) epsilon > 0)"
  using assms by (auto simp: aggregate_def reconciled_percentage_def Let_def max_def min_def)

theorem amount_reconciled_percentage_clamped_witness:
  "(0::real) < 1 / 100
   \<and> total_visa_amount (aggregate (1 / 100) example_sheets 0) = 0
   \<and> amount_reconciled_percentage (aggregate (1 / 100) example_sheets 0) = 0
   \<and> 0 \<le> amount_reconciled_percentage (aggregate (1 / 100) example_sheets 0)
   \<and> amount_reconciled_percentage (aggregate (1 / 100) example_sheets 0) \<le> 100"
proof -
  have pos: "(0::real) < 1 / 100" by simp
  have tv: "total_visa_amount (aggregate (1 / 100) example_sheets 0) = 0"
    by (simp add: aggregate_def example_sheets_def)
  have arp: "amount_reconciled_percentage (aggregate (1 / 100) example_sheets 0) = 0"
    by (simp add: aggregate_def example_sheets_def reconciled_percentage_def)
  from amount_reconciled_percentage_clamped [OF pos, of example_sheets 0]
  have bounds: "0 \<le> amount_reconciled_percentage (aggregate (1 / 100) example_sheets 0)
      \<and> amount_reconciled_percentage (aggregate (1 / 100) example_sheets 0) \<le> 100"
    unfolding Let_def by blast
  from pos tv arp bounds show ?thesis by blast
qed

lemma example_end_to_end:
  "amount_reconciled_percentage
     (aggregate (1 / 100)
        [\<lparr> sheet_name = ''S'', sheet_results = match example_fee_lines example_invoice_lines \<rparr>] 1)
   = 100 * (1 - 105 / 8200)"
  by (simp add: example_match aggregate_def reconciled_percentage_def)

section \<open>Properties of the alerting step\<close>


lemma is_subclass_Exception: "is_subclass c Exception"
  by simp

lemma print_return_ok: "prints_ok e \<Longrightarrow> print_return e s b = Inr b"
  by (simp add: print_return_def prints_ok_def)


lemma send_alert_printing:
  assumes "prints_ok e"
  shows "send_reconciliation_alert e report name slog =
     (case alert_try e report name slog of
        (Inr b, l) \<Rightarrow> (Inr b, l)
      | (Inl x, l) \<Rightarrow> (Inr False, l))"
  by (simp add: send_reconciliation_alert_def print_return_ok [OF assms]
      split: prod.splits sum.splits)

lemma send_alert_returns:
  assumes "prints_ok e"
  shows "\<exists>b l. send_reconciliation_alert e report name slog = (Inr b, l)"
  by (auto simp: send_alert_printing [OF assms] split: prod.splits sum.splits)

lemma py_format_fixed_ok:
  assumes "py_num v = Some a" and "float_formattable v"
  shows "py_format_fixed e n v = Inr (fmt_fixed e n a)"
  using assms by (cases v) (auto simp: py_format_fixed_def float_formattable_def)


lemma alert_try_disabled_log:
  "\<not> EMAIL_ENABLED e \<Longrightarrow> snd (alert_try e report name slog) = slog"
  by (simp add: alert_try_def)


lemma alert_message_defined:
  assumes "py_getitem report ''summary'' = Inr s"
    and "py_num v = Some a" and "float_formattable v"
    and "summary_complete s"
  shows "\<exists>msg. alert_message e report v name = Inr msg"
proof -
  from assms(4) obtain v1 v2 v3 v4 v5 v6 v7 v8 where
    "py_getitem s ''total_final_amount_display'' = Inr v1"
    "py_getitem s ''total_visa_amount_display'' = Inr v2"
    "py_getitem s ''fee_reconciled_display'' = Inr v3"
    "py_getitem s ''matched_items'' = Inr v4"
    "py_getitem s ''total_visa_items'' = Inr v5"
    "py_getitem s ''amount_match_display'' = Inr v6"
    "py_getitem s ''total_mappings'' = Inr v7"
    "py_getitem s ''sheet_count'' = Inr v8"
    by (auto simp: summary_complete_def alert_fields_def split: sum.splits)
  with assms(1) py_format_fixed_ok [OF assms(2,3)] show ?thesis
    by (simp add: alert_message_def bind_exn_def)
qed


lemma alert_try_below_95:
  assumes "EMAIL_ENABLED e"
    and "py_getitem report ''summary'' = Inr s"
    and "py_getitem s ''amount_reconciled_percentage'' = Inr v"
    and "py_num v = Some a" and "a < 95"
  shows "alert_try e report name slog =
     (case alert_message e report v name of
        Inl x \<Rightarrow> (Inl x, slog)
      | Inr msg \<Rightarrow>
          (case smtp_session e slog msg of
             Some x \<Rightarrow> (Inl x, slog @ [(msg, Some x)])
           | None \<Rightarrow>
               (bind_exn (py_format_fixed e 2 v) (\<lambda>amount2.
                  print_return e
                    (check_mark @ '' Alert email sent successfully! Amount Reconciled: ''
                     @ amount2 @ ''%'') True),
                slog @ [(msg, None)])))"
proof -
  have "py_ge_int v 95 = Inr False"
    using assms(4,5) by (simp add: py_ge_int_def)
  with assms(1,2,3) show ?thesis
    by (simp add: alert_try_def bind_exn_def)
qed


lemma example_summary_complete: "summary_complete (example_summary amount display)"
  by (simp add: summary_complete_def alert_fields_def example_summary_def)





lemma ascii_stdout_check: "ascii_stdout (check_mark @ s) \<noteq> None"
  by (simp add: ascii_stdout_def check_mark_def)

lemma ascii_stdout_cross:
  "ascii_stdout (cross_mark @ s)
     = Some (Exn UnicodeEncodeError (py_repr_str ''ascii'' @ '' codec cannot encode the text''))"
  by (simp add: ascii_stdout_def cross_mark_def)

lemma alert_try_True:
  "alert_try e report name slog = (Inr True, l) \<Longrightarrow>
     \<exists>s v msg. EMAIL_ENABLED e
       \<and> py_getitem report ''summary'' = Inr s
       \<and> py_getitem s ''amount_reconciled_percentage'' = Inr v
       \<and> py_ge_int v 95 = Inr False
       \<and> alert_message e report v name = Inr msg
       \<and> smtp_session e slog msg = None
       \<and> l = slog @ [(msg, None)]"
  by (auto simp: alert_try_def bind_exn_def print_return_def
      split: if_splits sum.splits bool.splits option.splits)

lemma send_alert_True:
  assumes "send_reconciliation_alert e report name slog = (Inr True, l)"
  shows "alert_try e report name slog = (Inr True, l)"
  using assms
  by (auto simp: send_reconciliation_alert_def print_return_def
      split: prod.splits sum.splits if_splits option.splits)

text \<open>
  What holds of \<^verbatim>\<open>send_reconciliation_alert\<close> on every standard output: it returns
  \<open>True\<close> only after the SMTP session for the alert message ended without an exception.
  On a standard output where no \<^verbatim>\<open>print\<close> raises it returns a boolean for every
  input, \<open>False\<close> when alerting is disabled, when the amount is at least 95 and when
  the \<^verbatim>\<open>try\<close> block raises.
\<close>

lemma send_alert_True_sent:
  assumes "send_reconciliation_alert e report name slog = (Inr True, l)"
  shows "\<exists>s v msg. py_getitem report ''summary'' = Inr s
           \<and> py_getitem s ''amount_reconciled_percentage'' = Inr v
           \<and> alert_message e report v name = Inr msg
           \<and> smtp_session e slog msg = None
           \<and> l = slog @ [(msg, None)]"
  using alert_try_True [OF send_alert_True [OF assms]] by blast

lemma send_alert_total_when_printing:
  assumes "prints_ok e"
  shows "\<exists>b slog'. send_reconciliation_alert e report name slog = (Inr b, slog')
     \<and> (\<not> EMAIL_ENABLED e \<longrightarrow> \<not> b \<and> slog' = slog)
     \<and> (\<forall>s v a. py_getitem report ''summary'' = Inr s
            \<and> py_getitem s ''amount_reconciled_percentage'' = Inr v
            \<and> py_num v = Some a \<and> a \<ge> 95 \<longrightarrow> \<not> b \<and> slog' = slog)
     \<and> (\<forall>x. fst (alert_try e report name slog) = Inl x \<longrightarrow> \<not> b)"
proof -
  obtain res l where at: "alert_try e report name slog = (res, l)"
    by (cases "alert_try e report name slog")
  have l1: "\<not> EMAIL_ENABLED e \<longrightarrow> res = Inr False \<and> l = slog"
    using at by (auto simp: alert_try_def print_return_ok [OF assms])
  have l2: "\<forall>s v a. py_getitem report ''summary'' = Inr s
            \<and> py_getitem s ''amount_reconciled_percentage'' = Inr v
            \<and> py_num v = Some a \<and> a \<ge> 95 \<longrightarrow> res \<noteq> Inr True \<and> l = slog"
  proof (intro allI impI)
    fix s v a
    assume h: "py_getitem report ''summary'' = Inr s
            \<and> py_getitem s ''amount_reconciled_percentage'' = Inr v
            \<and> py_num v = Some a \<and> a \<ge> 95"
    then have ge: "py_ge_int v 95 = Inr True"
      by (simp add: py_ge_int_def)
    show "res \<noteq> Inr True \<and> l = slog"
    proof (cases "EMAIL_ENABLED e")
      case False
      with l1 show ?thesis by simp
    next
      case True
      with h ge at have "res = bind_exn (py_format_fixed e 2 v) (\<lambda>amount2. Inr False) \<and> l = slog"
        by (simp add: alert_try_def bind_exn_def print_return_ok [OF assms])
      then show ?thesis
        by (cases "py_format_fixed e 2 v") (simp_all add: bind_exn_def)
    qed
  qed
  show ?thesis
  proof (cases res)
    case (Inl x)
    with at have "send_reconciliation_alert e report name slog = (Inr False, l)"
      by (simp add: send_alert_printing [OF assms])
    with l1 l2 show ?thesis by auto
  next
    case (Inr b)
    with at have "send_reconciliation_alert e report name slog = (Inr b, l)"
      by (simp add: send_alert_printing [OF assms])
    with l1 l2 at Inr show ?thesis by auto
  qed
qed

text \<open>
  C10, at a failing input. On a standard output that cannot encode the emoji of the
  messages (here one that takes ASCII text such as \<^verbatim>\<open>Processing txn_a...\<close> and nothing
  else), \<^verbatim>\<open>send_reconciliation_alert\<close> raises
  \<^verbatim>\<open>UnicodeEncodeError\<close>: the \<^verbatim>\<open>print\<close> of the \<^verbatim>\<open>try\<close> block raises, the handler of
  line 147 catches it, and the \<^verbatim>\<open>print\<close> of line 148 raises inside the handler, where
  nothing catches it. This happens with alerting disabled (line 82), at the amount 97.5
  (line 89), and at the amount 50 after the message was sent (line 138).
\<close>

theorem alert_raises_on_ascii_stdout:
  "stdout_print example_ascii_env ''Processing txn_a...'' = None
   \<and> send_reconciliation_alert (example_ascii_env\<lparr> EMAIL_ENABLED := False \<rparr>)
        (example_report 50 ''50.00%'') ''T1'' []
       = (Inl (Exn UnicodeEncodeError (py_repr_str ''ascii'' @ '' codec cannot encode the text'')),
          [])
   \<and> send_reconciliation_alert example_ascii_env (example_report 97.5 ''97.50%'') ''T1'' []
       = (Inl (Exn UnicodeEncodeError (py_repr_str ''ascii'' @ '' codec cannot encode the text'')),
          [])
   \<and> (\<exists>msg. send_reconciliation_alert example_ascii_env (example_report 50 ''50.00%'') ''T1'' []
         = (Inl (Exn UnicodeEncodeError (py_repr_str ''ascii'' @ '' codec cannot encode the text'')),
            [(msg, None)]))"
proof -
  let ?err = "Exn UnicodeEncodeError (py_repr_str ''ascii'' @ '' codec cannot encode the text'')"
  have pr: "stdout_print example_ascii_env s = ascii_stdout s" for s
    by (simp add: example_ascii_env_def)
  have ascii: "stdout_print example_ascii_env ''Processing txn_a...'' = None"
    by (simp add: pr ascii_stdout_def)
  have chk: "print_return example_ascii_env (check_mark @ s) b = Inl ?err" for s b
    by (simp add: print_return_def pr ascii_stdout_def check_mark_def)
  have crs: "print_return example_ascii_env (cross_mark @ s) b = Inl ?err" for s b
    by (simp add: print_return_def pr ascii_stdout_def cross_mark_def)
  have env: "print_return (example_ascii_env\<lparr> EMAIL_ENABLED := False \<rparr>) (envelope_sign @ s) b
      = Inl ?err" for s b
    by (simp add: print_return_def example_ascii_env_def ascii_stdout_def envelope_sign_def)
  have crs': "print_return (example_ascii_env\<lparr> EMAIL_ENABLED := False \<rparr>) (cross_mark @ s) b
      = Inl ?err" for s b
    by (simp add: print_return_def example_ascii_env_def ascii_stdout_def cross_mark_def)
  have off: "send_reconciliation_alert (example_ascii_env\<lparr> EMAIL_ENABLED := False \<rparr>)
        (example_report 50 ''50.00%'') ''T1'' [] = (Inl ?err, [])"
    by (simp add: send_reconciliation_alert_def alert_try_def env crs' del: append.simps)
  have en: "EMAIL_ENABLED example_ascii_env"
    by (simp add: example_ascii_env_def example_env_def)
  have s: "py_getitem (example_report a d) ''summary'' = Inr (example_summary a d)" for a d
    by (simp add: example_report_def)
  have v: "py_getitem (example_summary a d) ''amount_reconciled_percentage'' = Inr (PFloat a)" for a d
    by (simp add: example_summary_def)
  have f2: "py_format_fixed example_ascii_env 2 (PFloat a) = Inr ''#''" for a
    by (simp add: py_format_fixed_def example_ascii_env_def example_env_def)
  have "alert_try example_ascii_env (example_report 97.5 ''97.50%'') ''T1'' [] = (Inl ?err, [])"
    by (simp add: alert_try_def en s v bind_exn_def py_ge_int_def f2 chk del: append.simps)
  then have high: "send_reconciliation_alert example_ascii_env (example_report 97.5 ''97.50%'') ''T1'' []
      = (Inl ?err, [])"
    by (simp add: send_reconciliation_alert_def crs del: append.simps)
  have n50: "py_num (PFloat 50) = Some 50" by simp
  have lt50: "(50::real) < 95" by simp
  have f50: "float_formattable (PFloat 50)" by (simp add: float_formattable_def)
  from alert_message_defined
    [where e = example_ascii_env and name = "''T1''",
     OF s [of 50 "''50.00%''"] n50 f50 example_summary_complete]
  obtain msg where msg: "alert_message example_ascii_env (example_report 50 ''50.00%'') (PFloat 50) ''T1''
      = Inr msg"
    by blast
  have sm: "smtp_session example_ascii_env l m = None" for l m
    by (simp add: example_ascii_env_def example_env_def)
  have "alert_try example_ascii_env (example_report 50 ''50.00%'') ''T1'' []
      = (Inl ?err, [(msg, None)])"
    using alert_try_below_95
      [where name = "''T1''" and slog = "[]",
       OF en s [of 50 "''50.00%''"] v [of 50 "''50.00%''"] n50 lt50] msg
    by (simp add: sm f2 bind_exn_def chk del: append.simps)
  then have low: "send_reconciliation_alert example_ascii_env (example_report 50 ''50.00%'') ''T1'' []
      = (Inl ?err, [(msg, None)])"
    by (simp add: send_reconciliation_alert_def crs del: append.simps)
  from ascii off high low show ?thesis by blast
qed

section \<open>Properties of batch processing\<close>

lemma update_job_registered:
  assumes "job_registered job_id st"
  shows "\<exists>st'. update_job job_id f st = Inr st' \<and> job_registered job_id st'
           \<and> smtp_sessions st' = smtp_sessions st"
  using assms
  by (auto simp: update_job_def job_registered_def split: option.splits)

lemma batch_try_result:
  assumes "prints_ok e"
  shows "\<exists>l. batch_try e file_paths slog
       = (bind_exn (run_rate_analysis e file_paths)
            (\<lambda>report. bind_exn (below_threshold report) (\<lambda>b. Inr (report, b))), l)"
proof (cases "run_rate_analysis e file_paths")
  case (Inl x)
  then show ?thesis by (simp add: batch_try_def bind_exn_def)
next
  case (Inr report)
  show ?thesis
  proof (cases "below_threshold report")
    case (Inl x)
    with Inr show ?thesis by (simp add: batch_try_def bind_exn_def)
  next
    case b: (Inr b)
    obtain sent l where "send_reconciliation_alert e report [] slog = (Inr sent, l)"
      using send_alert_returns [OF assms] by blast
    with Inr b show ?thesis by (cases b) (simp_all add: batch_try_def bind_exn_def)
  qed
qed

lemma batch_transaction_result:
  assumes "job_registered job_id st"
    and "map_files_in_folder e (fi_path folder) = Inr file_paths"
    and "prints_ok e"
  shows "\<exists>st'. batch_transaction e job_id idx folder st
                 = Inr (folder_result e folder file_paths, st')
           \<and> job_registered job_id st'"
proof -
  from update_job_registered [OF assms(1)] obtain st1 where
    u: "update_job job_id
          (\<lambda>j. j\<lparr> progress := ''reconciling'', current_transaction := fi_name folder,
                   processed := idx \<rparr>) st = Inr st1"
    and r1: "job_registered job_id st1"
    by blast
  have r2: "job_registered job_id (st1\<lparr> smtp_sessions := l \<rparr>)" for l
    using r1 by (simp add: job_registered_def split: option.splits)
  obtain l where bt: "batch_try e file_paths (smtp_sessions st1)
       = (bind_exn (run_rate_analysis e file_paths)
            (\<lambda>report. bind_exn (below_threshold report) (\<lambda>b. Inr (report, b))), l)"
    using batch_try_result [OF assms(3)] by blast
  show ?thesis
    using u r1 r2 bt assms(2)
    by (auto simp: batch_transaction_def folder_result_def failed_result_def bind_exn_def
        split: sum.splits prod.splits)
qed

lemma batch_loop_results:
  assumes "job_registered job_id st" and "list_all (folder_listed e) folders"
    and "prints_ok e"
  shows "\<exists>results st'. batch_loop e job_id idx folders acc st = Inr (acc @ results, st')
           \<and> job_registered job_id st'
           \<and> list_all2 (\<lambda>f r. \<exists>fp. map_files_in_folder e (fi_path f) = Inr fp
                                   \<and> r = folder_result e f fp) folders results"
  using assms
proof (induction folders arbitrary: idx acc st)
  case Nil
  then show ?case by simp
next
  case (Cons folder rest)
  from Cons.prems(2) obtain fp where fp: "map_files_in_folder e (fi_path folder) = Inr fp"
    by (auto simp: folder_listed_def split: sum.splits)
  from Cons.prems(2) have rest: "list_all (folder_listed e) rest" by simp
  have pr: "stdout_print e (''Processing '' @ fi_name folder @ ''...'') = None"
    using Cons.prems(3) by (simp add: prints_ok_def)
  from batch_transaction_result [OF Cons.prems(1) fp Cons.prems(3)] obtain st1 where
    t: "batch_transaction e job_id idx folder st = Inr (folder_result e folder fp, st1)"
    and r: "job_registered job_id st1"
    by blast
  from Cons.IH [OF r rest Cons.prems(3), of "Suc idx" "acc @ [folder_result e folder fp]"]
  obtain results st' where
    l: "batch_loop e job_id (Suc idx) rest (acc @ [folder_result e folder fp]) st1
          = Inr ((acc @ [folder_result e folder fp]) @ results, st')"
    and r': "job_registered job_id st'"
    and a: "list_all2 (\<lambda>f r. \<exists>fp. map_files_in_folder e (fi_path f) = Inr fp
                                 \<and> r = folder_result e f fp) rest results"
    by blast
  from pr t l have "batch_loop e job_id idx (folder # rest) acc st
      = Inr (acc @ (folder_result e folder fp # results), st')"
    by simp
  moreover from fp a have
    "list_all2 (\<lambda>f r. \<exists>fp. map_files_in_folder e (fi_path f) = Inr fp
                       \<and> r = folder_result e f fp) (folder # rest) (folder_result e folder fp # results)"
    by simp
  ultimately show ?case using r' by blast
qed

lemma process_transaction_batch_results:
  assumes "job_registered job_id st"
    and "scan_transaction_folders e base_path = Inr folders"
    and "list_all (folder_listed e) folders"
    and "prints_ok e"
  shows "\<exists>results st'. process_transaction_batch e base_path job_id st = Inr (results, st')
           \<and> list_all2 (\<lambda>f r. \<exists>fp. map_files_in_folder e (fi_path f) = Inr fp
                                   \<and> r = folder_result e f fp) folders results"
proof -
  from update_job_registered [OF assms(1)] obtain st1 where
    u1: "update_job job_id
           (\<lambda>j. j\<lparr> progress := ''fetching'', total_transactions := length folders,
                    processed := 0 \<rparr>) st = Inr st1"
    and r1: "job_registered job_id st1"
    by blast
  from batch_loop_results [OF r1 assms(3,4), of 0 "[]"] obtain results st2 where
    l: "batch_loop e job_id 0 folders [] st1 = Inr (results, st2)"
    and r2: "job_registered job_id st2"
    and a: "list_all2 (\<lambda>f r. \<exists>fp. map_files_in_folder e (fi_path f) = Inr fp
                                 \<and> r = folder_result e f fp) folders results"
    by auto
  from update_job_registered [OF r2] obtain st3 where
    u3: "update_job job_id (\<lambda>j. j\<lparr> progress := ''finalizing'' \<rparr>) st2 = Inr st3"
    by blast
  from assms(2) u1 l u3 have
    "process_transaction_batch e base_path job_id st = Inr (results, st3)"
    by (simp add: process_transaction_batch_def bind_exn_def)
  with a show ?thesis by blast
qed

lemma reconcile_alone_result:
  assumes "map_files_in_folder e (fi_path folder) = Inr file_paths"
    and "prints_ok e"
  shows "reconcile_alone e folder = Inr (folder_result e folder file_paths)"
proof -
  have "job_registered None fresh_state" by (simp add: job_registered_def)
  from batch_transaction_result [OF this assms, of 0] show ?thesis
    by (auto simp: reconcile_alone_def)
qed

lemma single_try_raises:
  "run_rate_analysis e (txn_files txn) = Inl x \<Longrightarrow>
   single_try e idx txn temp_dir slog = (Inl x, txn\<lparr> txn_status := ''processing'' \<rparr>, slog)"
  by (simp add: single_try_def)

lemma process_single_transaction_returns:
  "\<exists>r txn' slog'. process_single_transaction e idx txn temp_dir slog = (Inr r, txn', slog')"
  by (auto simp: process_single_transaction_def split: prod.splits sum.splits)

text \<open>
  With a usable job id, transaction folders whose files can be listed and a standard
  output on which no \<^verbatim>\<open>print\<close> raises, \<^verbatim>\<open>process_transaction_batch\<close> returns one
  result per transaction folder, in the order of the folders, each the one its folder
  gets when processed alone; a folder whose reconciliation raises gets the result with
  status \<^verbatim>\<open>failed\<close> and the exception's message. \<^verbatim>\<open>process_single_transaction\<close>
  returns a result for every input.
\<close>

lemma batch_isolation_when_listed:
  assumes "job_registered job_id st"
    and "scan_transaction_folders e base_path = Inr folders"
    and "list_all (folder_listed e) folders"
    and "prints_ok e"
  shows "(\<exists>results st'. process_transaction_batch e base_path job_id st = Inr (results, st')
           \<and> length results = length folders
           \<and> (\<forall>i < length results.
                 br_transaction_name (results ! i) = fi_name (folders ! i)
                 \<and> Inr (results ! i) = reconcile_alone e (folders ! i)
                 \<and> (\<forall>x file_paths.
                        map_files_in_folder e (fi_path (folders ! i)) = Inr file_paths
                        \<and> path_present (fm_summary file_paths)
                        \<and> run_rate_analysis e file_paths = Inl x
                      \<longrightarrow> results ! i
                            = \<lparr> br_transaction_name = fi_name (folders ! i),
                                br_status = ''failed'', br_error = Some (exn_str x),
                                br_report = PNone, br_email_sent = False \<rparr>)))
       \<and> (\<exists>r txn' slog'. process_single_transaction e idx txn temp_dir slog = (Inr r, txn', slog')
            \<and> (\<forall>x. run_rate_analysis e (txn_files txn) = Inl x \<longrightarrow>
                   r = \<lparr> sr_index = idx, sr_status = ''failed'', sr_email_sent = None,
                         sr_error = Some (exn_str x), sr_transaction_name = txn_name txn \<rparr>
                   \<and> txn_status txn' = ''failed'' \<and> txn_error txn' = Some (exn_str x)))"
proof -
  from process_transaction_batch_results [OF assms] obtain results st' where
    p: "process_transaction_batch e base_path job_id st = Inr (results, st')"
    and a: "list_all2 (\<lambda>f r. \<exists>fp. map_files_in_folder e (fi_path f) = Inr fp
                                 \<and> r = folder_result e f fp) folders results"
    by blast
  from a have len: "length results = length folders"
    by (simp add: list_all2_lengthD)
  have each: "br_transaction_name (results ! i) = fi_name (folders ! i)
      \<and> Inr (results ! i) = reconcile_alone e (folders ! i)
      \<and> (\<forall>x file_paths.
             map_files_in_folder e (fi_path (folders ! i)) = Inr file_paths
             \<and> path_present (fm_summary file_paths)
             \<and> run_rate_analysis e file_paths = Inl x
           \<longrightarrow> results ! i
                 = \<lparr> br_transaction_name = fi_name (folders ! i),
                     br_status = ''failed'', br_error = Some (exn_str x),
                     br_report = PNone, br_email_sent = False \<rparr>)"
    if "i < length results" for i
  proof -
    from a that len obtain fp where
      fp: "map_files_in_folder e (fi_path (folders ! i)) = Inr fp"
      and r: "results ! i = folder_result e (folders ! i) fp"
      by (auto simp: list_all2_conv_all_nth)
    have n: "br_transaction_name (results ! i) = fi_name (folders ! i)"
      unfolding r
      by (simp add: folder_result_def failed_result_def split: sum.splits prod.splits)
    have al: "Inr (results ! i) = reconcile_alone e (folders ! i)"
      unfolding r by (simp add: reconcile_alone_result [OF fp assms(4)])
    have x: "\<forall>x file_paths.
             map_files_in_folder e (fi_path (folders ! i)) = Inr file_paths
             \<and> path_present (fm_summary file_paths)
             \<and> run_rate_analysis e file_paths = Inl x
           \<longrightarrow> results ! i
                 = \<lparr> br_transaction_name = fi_name (folders ! i),
                     br_status = ''failed'', br_error = Some (exn_str x),
                     br_report = PNone, br_email_sent = False \<rparr>"
      unfolding r using fp
      by (auto simp: folder_result_def failed_result_def bind_exn_def)
    from n al x show ?thesis by blast
  qed
  have batch: "\<exists>results st'. process_transaction_batch e base_path job_id st = Inr (results, st')
           \<and> length results = length folders
           \<and> (\<forall>i < length results.
                 br_transaction_name (results ! i) = fi_name (folders ! i)
                 \<and> Inr (results ! i) = reconcile_alone e (folders ! i)
                 \<and> (\<forall>x file_paths.
                        map_files_in_folder e (fi_path (folders ! i)) = Inr file_paths
                        \<and> path_present (fm_summary file_paths)
                        \<and> run_rate_analysis e file_paths = Inl x
                      \<longrightarrow> results ! i
                            = \<lparr> br_transaction_name = fi_name (folders ! i),
                                br_status = ''failed'', br_error = Some (exn_str x),
                                br_report = PNone, br_email_sent = False \<rparr>))"
    using p len each by blast
  obtain r txn' slog' where
    s: "process_single_transaction e idx txn temp_dir slog = (Inr r, txn', slog')"
    using process_single_transaction_returns by blast
  have "\<forall>x. run_rate_analysis e (txn_files txn) = Inl x \<longrightarrow>
          r = \<lparr> sr_index = idx, sr_status = ''failed'', sr_email_sent = None,
                sr_error = Some (exn_str x), sr_transaction_name = txn_name txn \<rparr>
          \<and> txn_status txn' = ''failed'' \<and> txn_error txn' = Some (exn_str x)"
    using s by (auto simp: process_single_transaction_def single_try_raises)
  with s batch show ?thesis by blast
qed

lemma example_scan:
  "scan_transaction_folders example_batch_env ''/data''
     = Inr [\<lparr> fi_name = ''txn_a'', fi_path = ''/data/txn_a'' \<rparr>,
            \<lparr> fi_name = ''txn_b'', fi_path = ''/data/txn_b'' \<rparr>,
            \<lparr> fi_name = ''txn_c'', fi_path = ''/data/txn_c'' \<rparr>]"
  by (simp add: scan_transaction_folders_def example_batch_env_def example_listdir_def
      path_join_def startswith_def endswith_def)

lemma example_map_a:
  "map_files_in_folder example_batch_env ''/data/txn_a''
     = Inr (empty_file_mapping\<lparr> fm_summary := Some ''/data/txn_a/Summary_Jan.xlsx'',
                                fm_invoice := Some ''/data/txn_a/VISA_Invoice.xlsx'' \<rparr>)"
  by (simp add: map_files_in_folder_def example_batch_env_def example_listdir_def map_file_def
      path_join_def startswith_def endswith_def lower_str_def lower_char_def
      empty_file_mapping_def Let_def)

lemma example_map_b:
  "map_files_in_folder example_batch_env ''/data/txn_b''
     = Inr (empty_file_mapping\<lparr> fm_invoice := Some ''/data/txn_b/Invoice.xlsx'' \<rparr>)"
  by (simp add: map_files_in_folder_def example_batch_env_def example_listdir_def map_file_def
      path_join_def startswith_def endswith_def lower_str_def lower_char_def
      empty_file_mapping_def Let_def)

lemma example_map_c:
  "map_files_in_folder example_batch_env ''/data/txn_c''
     = Inr (empty_file_mapping\<lparr> fm_summary := Some ''/data/txn_c/summary.xls'' \<rparr>)"
  by (simp add: map_files_in_folder_def example_batch_env_def example_listdir_def map_file_def
      path_join_def startswith_def endswith_def lower_str_def lower_char_def
      empty_file_mapping_def Let_def)

lemma example_run_env: "run_rate_analysis example_batch_env fm = example_run fm"
  by (simp add: example_batch_env_def)

lemma example_prints_ok: "prints_ok example_batch_env"
  by (simp add: prints_ok_def example_batch_env_def example_env_def)

lemma example_alert_off:
  "send_reconciliation_alert example_batch_env report name slog = (Inr False, slog)"
proof -
  have "\<not> EMAIL_ENABLED example_batch_env"
    by (simp add: example_batch_env_def)
  then show ?thesis
    by (simp add: send_alert_printing [OF example_prints_ok] alert_try_def
        print_return_ok [OF example_prints_ok])
qed

lemma example_below_threshold: "below_threshold (example_report 50 ''50.00%'') = Inr True"
  by (simp add: below_threshold_def example_report_def example_summary_def bind_exn_def
      py_lt_int_def)

lemma example_reconcile_b:
  "reconcile_alone example_batch_env \<lparr> fi_name = ''txn_b'', fi_path = ''/data/txn_b'' \<rparr>
     = Inr \<lparr> br_transaction_name = ''txn_b'', br_status = ''failed'',
             br_error = Some ''Summary file not found'', br_report = PNone,
             br_email_sent = False \<rparr>"
  by (simp add: reconcile_alone_def batch_transaction_def update_job_def bind_exn_def
      example_map_b path_present_def empty_file_mapping_def)

lemma example_reconcile_c:
  "reconcile_alone example_batch_env \<lparr> fi_name = ''txn_c'', fi_path = ''/data/txn_c'' \<rparr>
     = Inr \<lparr> br_transaction_name = ''txn_c'', br_status = ''success'', br_error = None,
             br_report = example_report 50 ''50.00%'', br_email_sent = True \<rparr>"
proof -
  have run: "run_rate_analysis example_batch_env
       (empty_file_mapping\<lparr> fm_summary := Some ''/data/txn_c/summary.xls'' \<rparr>)
      = Inr (example_report 50 ''50.00%'')"
    by (simp add: example_run_env example_run_def empty_file_mapping_def)
  have pp: "path_present (fm_summary
       (empty_file_mapping\<lparr> fm_summary := Some ''/data/txn_c/summary.xls'' \<rparr>))"
    by (simp add: path_present_def)
  show ?thesis
    by (simp add: reconcile_alone_def batch_transaction_def update_job_def bind_exn_def
        example_map_c pp path_present_def batch_try_def run example_below_threshold
        example_alert_off fresh_state_def)
qed

lemma example_batch_results:
  "job_registered (Some ''job-1'') example_state
   \<and> scan_transaction_folders example_batch_env ''/data''
       = Inr [\<lparr> fi_name = ''txn_a'', fi_path = ''/data/txn_a'' \<rparr>,
              \<lparr> fi_name = ''txn_b'', fi_path = ''/data/txn_b'' \<rparr>,
              \<lparr> fi_name = ''txn_c'', fi_path = ''/data/txn_c'' \<rparr>]
   \<and> (\<exists>results st'.
         process_transaction_batch example_batch_env ''/data'' (Some ''job-1'') example_state
           = Inr (results, st')
         \<and> length results = 3
         \<and> results ! 0 = \<lparr> br_transaction_name = ''txn_a'', br_status = ''failed'',
                            br_error = Some ''Worksheet named Rates not found'',
                            br_report = PNone, br_email_sent = False \<rparr>
         \<and> results ! 1 = \<lparr> br_transaction_name = ''txn_b'', br_status = ''failed'',
                            br_error = Some ''Summary file not found'',
                            br_report = PNone, br_email_sent = False \<rparr>
         \<and> results ! 2 = \<lparr> br_transaction_name = ''txn_c'', br_status = ''success'',
                            br_error = None, br_report = example_report 50 ''50.00%'',
                            br_email_sent = True \<rparr>)"
proof -
  let ?fs = "[\<lparr> fi_name = ''txn_a'', fi_path = ''/data/txn_a'' \<rparr>,
              \<lparr> fi_name = ''txn_b'', fi_path = ''/data/txn_b'' \<rparr>,
              \<lparr> fi_name = ''txn_c'', fi_path = ''/data/txn_c'' \<rparr>]"
  let ?fa = "empty_file_mapping\<lparr> fm_summary := Some ''/data/txn_a/Summary_Jan.xlsx'',
                                fm_invoice := Some ''/data/txn_a/VISA_Invoice.xlsx'' \<rparr>"
  have reg: "job_registered (Some ''job-1'') example_state"
    by (simp add: job_registered_def example_state_def)
  have listed: "list_all (folder_listed example_batch_env) ?fs"
    by (simp add: folder_listed_def example_map_a example_map_b example_map_c)
  from batch_isolation_when_listed [OF reg example_scan listed example_prints_ok]
  obtain results st' where
    p: "process_transaction_batch example_batch_env ''/data'' (Some ''job-1'') example_state
          = Inr (results, st')"
    and len: "length results = length ?fs"
    and each: "\<forall>i < length results.
          br_transaction_name (results ! i) = fi_name (?fs ! i)
          \<and> Inr (results ! i) = reconcile_alone example_batch_env (?fs ! i)
          \<and> (\<forall>x file_paths.
                 map_files_in_folder example_batch_env (fi_path (?fs ! i)) = Inr file_paths
                 \<and> path_present (fm_summary file_paths)
                 \<and> run_rate_analysis example_batch_env file_paths = Inl x
               \<longrightarrow> results ! i
                     = \<lparr> br_transaction_name = fi_name (?fs ! i), br_status = ''failed'',
                         br_error = Some (exn_str x), br_report = PNone,
                         br_email_sent = False \<rparr>)"
    by blast
  have l3: "length results = 3"
    using len by simp
  have raise_a: "map_files_in_folder example_batch_env (fi_path (?fs ! 0)) = Inr ?fa
      \<and> path_present (fm_summary ?fa)
      \<and> run_rate_analysis example_batch_env ?fa
          = Inl (Exn ValueError ''Worksheet named Rates not found'')"
    by (simp add: example_map_a path_present_def empty_file_mapping_def example_run_env
        example_run_def)
  from each l3 have "\<forall>x file_paths.
                 map_files_in_folder example_batch_env (fi_path (?fs ! 0)) = Inr file_paths
                 \<and> path_present (fm_summary file_paths)
                 \<and> run_rate_analysis example_batch_env file_paths = Inl x
               \<longrightarrow> results ! 0
                     = \<lparr> br_transaction_name = fi_name (?fs ! 0), br_status = ''failed'',
                         br_error = Some (exn_str x), br_report = PNone,
                         br_email_sent = False \<rparr>"
    by simp
  with raise_a have "results ! 0
      = \<lparr> br_transaction_name = fi_name (?fs ! 0), br_status = ''failed'',
          br_error = Some (exn_str (Exn ValueError ''Worksheet named Rates not found'')),
          br_report = PNone, br_email_sent = False \<rparr>"
    by blast
  then have r0: "results ! 0 = \<lparr> br_transaction_name = ''txn_a'', br_status = ''failed'',
                            br_error = Some ''Worksheet named Rates not found'',
                            br_report = PNone, br_email_sent = False \<rparr>"
    by simp
  from each l3 have "Inr (results ! 1) = reconcile_alone example_batch_env (?fs ! 1)"
    by simp
  then have r1: "results ! 1 = \<lparr> br_transaction_name = ''txn_b'', br_status = ''failed'',
                            br_error = Some ''Summary file not found'',
                            br_report = PNone, br_email_sent = False \<rparr>"
    by (simp add: example_reconcile_b)
  from each l3 have "Inr (results ! 2) = reconcile_alone example_batch_env (?fs ! 2)"
    by simp
  then have r2: "results ! 2 = \<lparr> br_transaction_name = ''txn_c'', br_status = ''success'',
                            br_error = None, br_report = example_report 50 ''50.00%'',
                            br_email_sent = True \<rparr>"
    by (simp add: example_reconcile_c)
  from reg example_scan p l3 r0 r1 r2 show ?thesis by blast
qed

lemma example_locked_scan:
  "scan_transaction_folders example_batch_env ''/locked''
     = Inr [\<lparr> fi_name = ''txn_a'', fi_path = ''/locked/txn_a'' \<rparr>,
            \<lparr> fi_name = ''txn_z'', fi_path = ''/locked/txn_z'' \<rparr>]"
  by (simp add: scan_transaction_folders_def example_batch_env_def example_listdir_def
      path_join_def startswith_def endswith_def)

lemma example_map_z:
  "map_files_in_folder example_batch_env ''/locked/txn_z''
     = Inr (empty_file_mapping\<lparr> fm_summary := Some ''/locked/txn_z/summary.xlsx'' \<rparr>)"
  by (simp add: map_files_in_folder_def example_batch_env_def example_listdir_def map_file_def
      path_join_def startswith_def endswith_def lower_str_def lower_char_def
      empty_file_mapping_def Let_def)

lemma example_reconcile_z:
  "reconcile_alone example_batch_env \<lparr> fi_name = ''txn_z'', fi_path = ''/locked/txn_z'' \<rparr>
     = Inr \<lparr> br_transaction_name = ''txn_z'', br_status = ''success'', br_error = None,
             br_report = example_report 50 ''50.00%'', br_email_sent = True \<rparr>"
proof -
  have run: "run_rate_analysis example_batch_env
       (empty_file_mapping\<lparr> fm_summary := Some ''/locked/txn_z/summary.xlsx'' \<rparr>)
      = Inr (example_report 50 ''50.00%'')"
    by (simp add: example_run_env example_run_def empty_file_mapping_def)
  have pp: "path_present (fm_summary
       (empty_file_mapping\<lparr> fm_summary := Some ''/locked/txn_z/summary.xlsx'' \<rparr>))"
    by (simp add: path_present_def)
  show ?thesis
    by (simp add: reconcile_alone_def batch_transaction_def update_job_def bind_exn_def
        example_map_z pp path_present_def batch_try_def run example_below_threshold
        example_alert_off fresh_state_def)
qed

text \<open>
  C5, at a failing input. The folder \<^verbatim>\<open>/locked\<close> holds the transaction folders
  \<^verbatim>\<open>txn_a\<close>, which \<^verbatim>\<open>os.listdir\<close> cannot read, and \<^verbatim>\<open>txn_z\<close>, which reconciles
  when processed alone. \<^verbatim>\<open>map_files_in_folder\<close> (line 258) runs before the \<^verbatim>\<open>try\<close>
  block of line 271, so the \<^verbatim>\<open>PermissionError\<close> of \<^verbatim>\<open>txn_a\<close> leaves
  \<^verbatim>\<open>process_transaction_batch\<close>: no failed result is recorded for \<^verbatim>\<open>txn_a\<close> and
  \<^verbatim>\<open>txn_z\<close> is not processed.
\<close>

theorem unlisted_folder_aborts_batch:
  "scan_transaction_folders example_batch_env ''/locked''
     = Inr [\<lparr> fi_name = ''txn_a'', fi_path = ''/locked/txn_a'' \<rparr>,
            \<lparr> fi_name = ''txn_z'', fi_path = ''/locked/txn_z'' \<rparr>]
   \<and> map_files_in_folder example_batch_env ''/locked/txn_a''
       = Inl (Exn PermissionError ''[Errno 13] Permission denied'')
   \<and> reconcile_alone example_batch_env \<lparr> fi_name = ''txn_z'', fi_path = ''/locked/txn_z'' \<rparr>
       = Inr \<lparr> br_transaction_name = ''txn_z'', br_status = ''success'', br_error = None,
               br_report = example_report 50 ''50.00%'', br_email_sent = True \<rparr>
   \<and> process_transaction_batch example_batch_env ''/locked'' None fresh_state
       = Inl (Exn PermissionError ''[Errno 13] Permission denied'')"
proof -
  have ma: "map_files_in_folder example_batch_env ''/locked/txn_a''
       = Inl (Exn PermissionError ''[Errno 13] Permission denied'')"
    by (simp add: map_files_in_folder_def example_batch_env_def example_listdir_def)
  have pr: "stdout_print example_batch_env s = None" for s
    using example_prints_ok by (simp add: prints_ok_def)
  have "process_transaction_batch example_batch_env ''/locked'' None fresh_state
       = Inl (Exn PermissionError ''[Errno 13] Permission denied'')"
    by (simp add: process_transaction_batch_def example_locked_scan bind_exn_def update_job_def
        pr batch_transaction_def ma)
  with example_locked_scan ma example_reconcile_z show ?thesis by blast
qed

lemma below_threshold_True:
  assumes "report = PDict d" and "map_of d ''summary'' = Some s" and "truthy s"
    and "py_getitem s ''amount_reconciled_percentage'' = Inr v"
    and "py_num v = Some a" and "a < 95"
  shows "below_threshold report = Inr True"
proof -
  from assms(2) have "d \<noteq> []" by auto
  with assms show ?thesis
    by (simp add: below_threshold_def bind_exn_def py_lt_int_def)
qed

lemma send_alert_below_95_printing:
  assumes "prints_ok e" and "EMAIL_ENABLED e"
    and "py_getitem report ''summary'' = Inr s"
    and "py_getitem s ''amount_reconciled_percentage'' = Inr v"
    and "py_num v = Some a" and "a < 95"
    and "float_formattable v" and "summary_complete s"
  shows "\<exists>msg. send_reconciliation_alert e report name slog
           = (Inr (smtp_session e slog msg = None), slog @ [(msg, smtp_session e slog msg)])"
proof -
  from alert_message_defined [OF assms(3) assms(5) assms(7) assms(8)]
  obtain msg where msg: "alert_message e report v name = Inr msg" by blast
  have at: "alert_try e report name slog
      = (case smtp_session e slog msg of
           Some x \<Rightarrow> (Inl x, slog @ [(msg, Some x)])
         | None \<Rightarrow> (Inr True, slog @ [(msg, None)]))"
    unfolding alert_try_below_95 [OF assms(2-6), of name slog]
    by (simp add: msg py_format_fixed_ok [OF assms(5) assms(7)] bind_exn_def
        print_return_ok [OF assms(1)] split: option.splits)
  have "send_reconciliation_alert e report name slog
      = (Inr (smtp_session e slog msg = None), slog @ [(msg, smtp_session e slog msg)])"
    unfolding send_alert_printing [OF assms(1)] at
    by (cases "smtp_session e slog msg") simp_all
  then show ?thesis by blast
qed

text \<open>
  C8. Take a report whose summary holds an \<^verbatim>\<open>amount_reconciled_percentage\<close> below 95.
  In \<^verbatim>\<open>process_transaction_batch\<close>, for a folder with a summary file whose
  reconciliation returns that report, whenever \<^verbatim>\<open>send_reconciliation_alert\<close> returns
  a boolean, \<open>True\<close> or \<open>False\<close>, the transaction is recorded with status \<^verbatim>\<open>success\<close>
  and \<^verbatim>\<open>email_sent = True\<close>. \<^verbatim>\<open>process_single_transaction\<close>, on the same report,
  when the report file is written and the summary has its display string, returns the
  successful result with \<^verbatim>\<open>email_sent\<close> equal to the boolean the alert function
  returned, and records that boolean in the transaction.
\<close>

theorem batch_email_sent_unconditional:
  assumes "job_registered job_id st"
    and "map_files_in_folder e (fi_path folder) = Inr file_paths"
    and "path_present (fm_summary file_paths)"
    and "run_rate_analysis e file_paths = Inr report"
    and "run_rate_analysis e (txn_files txn) = Inr report"
    and "report = PDict d" and "map_of d ''summary'' = Some s" and "truthy s"
    and "py_getitem s ''amount_reconciled_percentage'' = Inr v"
    and "py_num v = Some a" and "a < 95"
  shows "(\<forall>b slog'. send_reconciliation_alert e report [] (smtp_sessions st) = (Inr b, slog')
            \<longrightarrow> (\<exists>st'. batch_transaction e job_id idx folder st
                        = Inr (\<lparr> br_transaction_name = fi_name folder, br_status = ''success'',
                                 br_error = None, br_report = report,
                                 br_email_sent = True \<rparr>, st')
                      \<and> smtp_sessions st' = slog'))
       \<and> (\<forall>b slog1 dir disp.
              send_reconciliation_alert e report (txn_name txn) slog = (Inr b, slog1)
              \<and> save_report e (path_join dir (''report_'' @ py_str_int i @ ''.json'')) report
                  = None
              \<and> py_getitem s ''amount_reconciled_display'' = Inr disp
            \<longrightarrow> process_single_transaction e i txn (Some dir) slog
                  = (Inr \<lparr> sr_index = i, sr_status = ''success'', sr_email_sent = Some b,
                           sr_error = None, sr_transaction_name = txn_name txn \<rparr>,
                     txn\<lparr> txn_status := ''completed'',
                          txn_report_file := Some (''report_'' @ py_str_int i @ ''.json''),
                          txn_email_sent := Some b,
                          txn_amount_reconciled := Some disp \<rparr>,
                     slog1))"
proof -
  have bt: "below_threshold report = Inr True"
    by (rule below_threshold_True [OF assms(6-11)])
  have su: "py_getitem report ''summary'' = Inr s"
    using assms(6,7) by simp
  have batch: "\<forall>b slog'. send_reconciliation_alert e report [] (smtp_sessions st) = (Inr b, slog')
            \<longrightarrow> (\<exists>st'. batch_transaction e job_id idx folder st
                        = Inr (\<lparr> br_transaction_name = fi_name folder, br_status = ''success'',
                                 br_error = None, br_report = report,
                                 br_email_sent = True \<rparr>, st')
                      \<and> smtp_sessions st' = slog')"
  proof (intro allI impI)
    fix b slog'
    assume al: "send_reconciliation_alert e report [] (smtp_sessions st) = (Inr b, slog')"
    from update_job_registered [OF assms(1)] obtain st1 where
      u: "update_job job_id
            (\<lambda>j. j\<lparr> progress := ''reconciling'', current_transaction := fi_name folder,
                     processed := idx \<rparr>) st = Inr st1"
      and ss: "smtp_sessions st1 = smtp_sessions st"
      by blast
    have "batch_try e file_paths (smtp_sessions st1) = (Inr (report, True), slog')"
      using assms(4) bt al ss by (simp add: batch_try_def)
    with u assms(2,3) have "batch_transaction e job_id idx folder st
        = Inr (\<lparr> br_transaction_name = fi_name folder, br_status = ''success'',
                 br_error = None, br_report = report, br_email_sent = True \<rparr>,
               st1\<lparr> smtp_sessions := slog' \<rparr>)"
      by (simp add: batch_transaction_def bind_exn_def)
    then show "\<exists>st'. batch_transaction e job_id idx folder st
                        = Inr (\<lparr> br_transaction_name = fi_name folder, br_status = ''success'',
                                 br_error = None, br_report = report,
                                 br_email_sent = True \<rparr>, st')
                      \<and> smtp_sessions st' = slog'"
      by simp
  qed
  have single: "\<forall>b slog1 dir disp.
              send_reconciliation_alert e report (txn_name txn) slog = (Inr b, slog1)
              \<and> save_report e (path_join dir (''report_'' @ py_str_int i @ ''.json'')) report
                  = None
              \<and> py_getitem s ''amount_reconciled_display'' = Inr disp
            \<longrightarrow> process_single_transaction e i txn (Some dir) slog
                  = (Inr \<lparr> sr_index = i, sr_status = ''success'', sr_email_sent = Some b,
                           sr_error = None, sr_transaction_name = txn_name txn \<rparr>,
                     txn\<lparr> txn_status := ''completed'',
                          txn_report_file := Some (''report_'' @ py_str_int i @ ''.json''),
                          txn_email_sent := Some b,
                          txn_amount_reconciled := Some disp \<rparr>,
                     slog1)"
    using assms(5) bt su
    by (simp add: process_single_transaction_def single_try_def bind_exn_def)
  from batch single show ?thesis by blast
qed

lemma example_envs_print: "prints_ok example_auth_env" "prints_ok example_sending_env"
  by (simp_all add: prints_ok_def example_auth_env_def example_sending_env_def example_env_def)

lemma example_envs_map_c:
  "map_files_in_folder example_auth_env ''/data/txn_c''
     = Inr (empty_file_mapping\<lparr> fm_summary := Some ''/data/txn_c/summary.xls'' \<rparr>)"
  "map_files_in_folder example_sending_env ''/data/txn_c''
     = Inr (empty_file_mapping\<lparr> fm_summary := Some ''/data/txn_c/summary.xls'' \<rparr>)"
  by (simp_all add: map_files_in_folder_def example_auth_env_def example_sending_env_def
      example_listdir_def map_file_def path_join_def startswith_def endswith_def lower_str_def
      lower_char_def empty_file_mapping_def Let_def)

lemma example_envs_run:
  "run_rate_analysis example_auth_env
       (empty_file_mapping\<lparr> fm_summary := Some ''/data/txn_c/summary.xls'' \<rparr>)
     = Inr (example_report 50 ''50.00%'')"
  "run_rate_analysis example_sending_env
       (empty_file_mapping\<lparr> fm_summary := Some ''/data/txn_c/summary.xls'' \<rparr>)
     = Inr (example_report 50 ''50.00%'')"
  by (simp_all add: example_auth_env_def example_sending_env_def example_run_def
      empty_file_mapping_def)

theorem batch_email_sent_unconditional_witness:
  "job_registered None fresh_state
   \<and> map_files_in_folder example_auth_env ''/data/txn_c''
       = Inr (empty_file_mapping\<lparr> fm_summary := Some ''/data/txn_c/summary.xls'' \<rparr>)
   \<and> run_rate_analysis example_auth_env
         (empty_file_mapping\<lparr> fm_summary := Some ''/data/txn_c/summary.xls'' \<rparr>)
       = Inr (example_report 50 ''50.00%'')
   \<and> py_getitem (example_summary 50 ''50.00%'') ''amount_reconciled_percentage'' = Inr (PFloat 50)
   \<and> (\<exists>l. send_reconciliation_alert example_auth_env (example_report 50 ''50.00%'') [] []
             = (Inr False, l)
          \<and> (\<exists>st'. batch_transaction example_auth_env None 0
                       \<lparr> fi_name = ''txn_c'', fi_path = ''/data/txn_c'' \<rparr> fresh_state
                     = Inr (\<lparr> br_transaction_name = ''txn_c'', br_status = ''success'',
                              br_error = None, br_report = example_report 50 ''50.00%'',
                              br_email_sent = True \<rparr>, st')))
   \<and> (\<exists>txn' l. process_single_transaction example_auth_env 0
          (example_txn ''txn_c'' (empty_file_mapping\<lparr> fm_summary := Some ''/data/txn_c/summary.xls'' \<rparr>))
          (Some ''/tmp/batch'') []
        = (Inr \<lparr> sr_index = 0, sr_status = ''success'', sr_email_sent = Some False,
                 sr_error = None, sr_transaction_name = ''txn_c'' \<rparr>, txn', l)
        \<and> txn_email_sent txn' = Some False)
   \<and> (\<exists>txn' l. process_single_transaction example_sending_env 0
          (example_txn ''txn_c'' (empty_file_mapping\<lparr> fm_summary := Some ''/data/txn_c/summary.xls'' \<rparr>))
          (Some ''/tmp/batch'') []
        = (Inr \<lparr> sr_index = 0, sr_status = ''success'', sr_email_sent = Some True,
                 sr_error = None, sr_transaction_name = ''txn_c'' \<rparr>, txn', l)
        \<and> txn_email_sent txn' = Some True)"
proof -
  let ?folder = "\<lparr> fi_name = ''txn_c'', fi_path = ''/data/txn_c'' \<rparr>"
  let ?fc = "empty_file_mapping\<lparr> fm_summary := Some ''/data/txn_c/summary.xls'' \<rparr>"
  let ?txn = "example_txn ''txn_c'' ?fc"
  let ?report = "example_report 50 ''50.00%''"
  let ?s = "example_summary 50 ''50.00%''"
  have h1: "job_registered None fresh_state" by (simp add: job_registered_def)
  have h2a: "map_files_in_folder example_auth_env (fi_path ?folder) = Inr ?fc"
    by (simp add: example_envs_map_c)
  have h2s: "map_files_in_folder example_sending_env (fi_path ?folder) = Inr ?fc"
    by (simp add: example_envs_map_c)
  have h3: "path_present (fm_summary ?fc)"
    by (simp add: path_present_def)
  note h4a = example_envs_run(1) and h4s = example_envs_run(2)
  have h5a: "run_rate_analysis example_auth_env (txn_files ?txn) = Inr ?report"
    by (simp add: example_txn_def example_envs_run)
  have h5s: "run_rate_analysis example_sending_env (txn_files ?txn) = Inr ?report"
    by (simp add: example_txn_def example_envs_run)
  have h6: "?report = PDict [(''summary'', ?s), (''sheets'', PList []), (''warnings'', PList [])]"
    by (simp add: example_report_def)
  have h7: "map_of [(''summary'', ?s), (''sheets'', PList []), (''warnings'', PList [])] ''summary''
      = Some ?s"
    by simp
  have h8: "truthy ?s" by (simp add: example_summary_def)
  have h9: "py_getitem ?s ''amount_reconciled_percentage'' = Inr (PFloat 50)"
    by (simp add: example_summary_def)
  have h10: "py_num (PFloat 50) = Some 50" by simp
  have h11: "(50::real) < 95" by simp
  have su: "py_getitem ?report ''summary'' = Inr ?s"
    by (simp add: example_report_def)
  have fo: "float_formattable (PFloat 50)" by (simp add: float_formattable_def)
  have ena: "EMAIL_ENABLED example_auth_env" and ens: "EMAIL_ENABLED example_sending_env"
    by (simp_all add: example_auth_env_def example_sending_env_def example_env_def)
  have sma: "smtp_session example_auth_env l m = Some (Exn SMTPAuthenticationError ''535 bad login'')"
    for l m
    by (simp add: example_auth_env_def)
  have sms: "smtp_session example_sending_env l m = None" for l m
    by (simp add: example_sending_env_def example_env_def)
  have sva: "save_report example_auth_env p r = None" for p r
    by (simp add: example_auth_env_def example_env_def)
  have svs: "save_report example_sending_env p r = None" for p r
    by (simp add: example_sending_env_def example_env_def)
  have disp: "py_getitem ?s ''amount_reconciled_display'' = Inr (PStr ''50.00%'')"
    by (simp add: example_summary_def)
  have nm: "txn_name ?txn = ''txn_c''" by (simp add: example_txn_def)
  from send_alert_below_95_printing
    [OF example_envs_print(1) ena su h9 h10 h11 fo example_summary_complete, of "[]" "[]"]
  obtain la where ala: "send_reconciliation_alert example_auth_env ?report [] [] = (Inr False, la)"
    by (auto simp: sma)
  from send_alert_below_95_printing
    [OF example_envs_print(1) ena su h9 h10 h11 fo example_summary_complete, of "''txn_c''" "[]"]
  obtain lb where alb: "send_reconciliation_alert example_auth_env ?report (txn_name ?txn) []
      = (Inr False, lb)"
    by (auto simp: sma nm)
  from send_alert_below_95_printing
    [OF example_envs_print(2) ens su h9 h10 h11 fo example_summary_complete, of "''txn_c''" "[]"]
  obtain lc where alc: "send_reconciliation_alert example_sending_env ?report (txn_name ?txn) []
      = (Inr True, lc)"
    by (auto simp: sms nm)
  note ta = batch_email_sent_unconditional
    [where idx = 0 and slog = "[]" and i = 0,
     OF h1 h2a h3 h4a h5a h6 h7 h8 h9 h10 h11]
  note ts = batch_email_sent_unconditional
    [where idx = 0 and slog = "[]" and i = 0,
     OF h1 h2s h3 h4s h5s h6 h7 h8 h9 h10 h11]
  from ta ala have batch: "\<exists>st'. batch_transaction example_auth_env None 0 ?folder fresh_state
        = Inr (\<lparr> br_transaction_name = ''txn_c'', br_status = ''success'', br_error = None,
                 br_report = ?report, br_email_sent = True \<rparr>, st')"
    by (auto simp: fresh_state_def)
  from ta alb sva disp have "process_single_transaction example_auth_env 0 ?txn (Some ''/tmp/batch'') []
        = (Inr \<lparr> sr_index = 0, sr_status = ''success'', sr_email_sent = Some False,
                 sr_error = None, sr_transaction_name = txn_name ?txn \<rparr>,
           ?txn\<lparr> txn_status := ''completed'',
                 txn_report_file := Some (''report_'' @ py_str_int 0 @ ''.json''),
                 txn_email_sent := Some False,
                 txn_amount_reconciled := Some (PStr ''50.00%'') \<rparr>, lb)"
    by blast
  then have sa: "\<exists>txn' l. process_single_transaction example_auth_env 0 ?txn (Some ''/tmp/batch'') []
        = (Inr \<lparr> sr_index = 0, sr_status = ''success'', sr_email_sent = Some False,
                 sr_error = None, sr_transaction_name = ''txn_c'' \<rparr>, txn', l)
        \<and> txn_email_sent txn' = Some False"
    by (simp add: nm)
  from ts alc svs disp have "process_single_transaction example_sending_env 0 ?txn (Some ''/tmp/batch'') []
        = (Inr \<lparr> sr_index = 0, sr_status = ''success'', sr_email_sent = Some True,
                 sr_error = None, sr_transaction_name = txn_name ?txn \<rparr>,
           ?txn\<lparr> txn_status := ''completed'',
                 txn_report_file := Some (''report_'' @ py_str_int 0 @ ''.json''),
                 txn_email_sent := Some True,
                 txn_amount_reconciled := Some (PStr ''50.00%'') \<rparr>, lc)"
    by blast
  then have ss: "\<exists>txn' l. process_single_transaction example_sending_env 0 ?txn (Some ''/tmp/batch'') []
        = (Inr \<lparr> sr_index = 0, sr_status = ''success'', sr_email_sent = Some True,
                 sr_error = None, sr_transaction_name = ''txn_c'' \<rparr>, txn', l)
        \<and> txn_email_sent txn' = Some True"
    by (simp add: nm)
  from h2a have m: "map_files_in_folder example_auth_env ''/data/txn_c'' = Inr ?fc" by simp
  from h1 m h4a h9 ala batch sa ss show ?thesis by blast
qed

lemma map_file_keeps_summary:
  "\<not> is_summary_file entry \<Longrightarrow> fm_summary (map_file p entry fm) = fm_summary fm"
  by (auto simp: map_file_def is_summary_file_def Let_def)

lemma fold_map_file_keeps_summary:
  "\<forall>entry \<in> set entries. \<not> is_summary_file entry \<Longrightarrow>
   fm_summary (fold (map_file p) entries fm) = fm_summary fm"
  by (induction entries arbitrary: fm) (simp_all add: map_file_keeps_summary)

text \<open>
  A folder that does not exist, or that holds no entry taken for a summary file, is
  mapped without a summary path.
\<close>

lemma no_summary_file_no_path:
  assumes "listdir e p = Inr listing"
    and "\<forall>entries. listing = Some entries \<longrightarrow> (\<forall>entry \<in> set entries. \<not> is_summary_file entry)"
  shows "\<exists>file_paths. map_files_in_folder e p = Inr file_paths
           \<and> \<not> path_present (fm_summary file_paths)"
  using assms
  by (cases listing)
     (simp_all add: map_files_in_folder_def path_present_def empty_file_mapping_def
        fold_map_file_keeps_summary)

text \<open>
  C6. A folder in which \<^verbatim>\<open>map_files_in_folder\<close> finds no summary file gives, in the
  batch, the result with status \<^verbatim>\<open>failed\<close>, the reason \<^verbatim>\<open>Summary file not found\<close>, no
  report (\<^verbatim>\<open>None\<close>) and no alert; a POST to the rates tab without a summary upload
  gives a page with no report and the message \<^verbatim>\<open>Summary file is required.\<close>, and
  leaves the state unchanged. A batch result whose status is not \<^verbatim>\<open>failed\<close> has status
  \<^verbatim>\<open>success\<close>, no error, and carries the report the reconciliation returned, so the
  two outcomes differ in the status.
\<close>

theorem missing_summary_is_fatal:
  "(\<forall>file_paths. job_registered job_id st
      \<and> map_files_in_folder e (fi_path folder) = Inr file_paths
      \<and> \<not> path_present (fm_summary file_paths)
    \<longrightarrow> (\<exists>st'. batch_transaction e job_id idx folder st
              = Inr (\<lparr> br_transaction_name = fi_name folder, br_status = ''failed'',
                       br_error = Some ''Summary file not found'', br_report = PNone,
                       br_email_sent = False \<rparr>, st')
            \<and> smtp_sessions st' = smtp_sessions st))
   \<and> (\<not> path_present (summary_file form)
       \<longrightarrow> rates_file e form temp_dir st
            = Inr (\<lparr> rp_report = PNone, rp_error_message = Some ''Summary file is required.'' \<rparr>,
                   st))
   \<and> (\<forall>r st'. batch_transaction e job_id idx folder st = Inr (r, st')
          \<and> br_status r \<noteq> ''failed''
        \<longrightarrow> br_status r = ''success'' \<and> br_error r = None
            \<and> (\<exists>file_paths. map_files_in_folder e (fi_path folder) = Inr file_paths
                  \<and> path_present (fm_summary file_paths)
                  \<and> run_rate_analysis e file_paths = Inr (br_report r)))"
proof -
  have a: "\<forall>file_paths. job_registered job_id st
      \<and> map_files_in_folder e (fi_path folder) = Inr file_paths
      \<and> \<not> path_present (fm_summary file_paths)
    \<longrightarrow> (\<exists>st'. batch_transaction e job_id idx folder st
              = Inr (\<lparr> br_transaction_name = fi_name folder, br_status = ''failed'',
                       br_error = Some ''Summary file not found'', br_report = PNone,
                       br_email_sent = False \<rparr>, st')
            \<and> smtp_sessions st' = smtp_sessions st)"
  proof (intro allI impI)
    fix file_paths
    assume h: "job_registered job_id st
      \<and> map_files_in_folder e (fi_path folder) = Inr file_paths
      \<and> \<not> path_present (fm_summary file_paths)"
    from update_job_registered [of job_id st] h obtain st1 where
      "update_job job_id
          (\<lambda>j. j\<lparr> progress := ''reconciling'', current_transaction := fi_name folder,
                   processed := idx \<rparr>) st = Inr st1"
      and "smtp_sessions st1 = smtp_sessions st"
      by blast
    with h show "\<exists>st'. batch_transaction e job_id idx folder st
              = Inr (\<lparr> br_transaction_name = fi_name folder, br_status = ''failed'',
                       br_error = Some ''Summary file not found'', br_report = PNone,
                       br_email_sent = False \<rparr>, st')
            \<and> smtp_sessions st' = smtp_sessions st"
      by (simp add: batch_transaction_def bind_exn_def)
  qed
  have b: "\<not> path_present (summary_file form)
       \<longrightarrow> rates_file e form temp_dir st
            = Inr (\<lparr> rp_report = PNone, rp_error_message = Some ''Summary file is required.'' \<rparr>,
                   st)"
    by (simp add: rates_file_def rates_try_def)
  have c: "\<forall>r st'. batch_transaction e job_id idx folder st = Inr (r, st')
          \<and> br_status r \<noteq> ''failed''
        \<longrightarrow> br_status r = ''success'' \<and> br_error r = None
            \<and> (\<exists>file_paths. map_files_in_folder e (fi_path folder) = Inr file_paths
                  \<and> path_present (fm_summary file_paths)
                  \<and> run_rate_analysis e file_paths = Inr (br_report r))"
    by (auto simp: batch_transaction_def bind_exn_def batch_try_def
        split: sum.splits prod.splits if_splits bool.splits)
  from a b c show ?thesis by blast
qed

theorem missing_summary_is_fatal_witness:
  "job_registered (Some ''job-1'') example_state
   \<and> map_files_in_folder example_batch_env ''/data/txn_b''
       = Inr (empty_file_mapping\<lparr> fm_invoice := Some ''/data/txn_b/Invoice.xlsx'' \<rparr>)
   \<and> (\<exists>st'. batch_transaction example_batch_env (Some ''job-1'') 1
                \<lparr> fi_name = ''txn_b'', fi_path = ''/data/txn_b'' \<rparr> example_state
              = Inr (\<lparr> br_transaction_name = ''txn_b'', br_status = ''failed'',
                       br_error = Some ''Summary file not found'', br_report = PNone,
                       br_email_sent = False \<rparr>, st'))
   \<and> rates_file example_batch_env
        \<lparr> summary_file = Some [], card_file = None, international_file = None,
          domestic_file = None, dispute_file = None, invoice_file = Some ''invoice.xlsx'' \<rparr>
        ''/tmp/rates_tab_1'' fresh_state
       = Inr (\<lparr> rp_report = PNone, rp_error_message = Some ''Summary file is required.'' \<rparr>,
              fresh_state)
   \<and> (\<exists>r st'. batch_transaction example_batch_env None 2
                  \<lparr> fi_name = ''txn_c'', fi_path = ''/data/txn_c'' \<rparr> fresh_state = Inr (r, st')
          \<and> br_status r = ''success'' \<and> br_error r = None
          \<and> br_report r = example_report 50 ''50.00%'')"
proof -
  let ?b = "\<lparr> fi_name = ''txn_b'', fi_path = ''/data/txn_b'' \<rparr>"
  let ?c = "\<lparr> fi_name = ''txn_c'', fi_path = ''/data/txn_c'' \<rparr>"
  let ?fb = "empty_file_mapping\<lparr> fm_invoice := Some ''/data/txn_b/Invoice.xlsx'' \<rparr>"
  let ?fc = "empty_file_mapping\<lparr> fm_summary := Some ''/data/txn_c/summary.xls'' \<rparr>"
  let ?form = "\<lparr> summary_file = Some [], card_file = None, international_file = None,
          domestic_file = None, dispute_file = None, invoice_file = Some ''invoice.xlsx'' \<rparr>"
  have reg: "job_registered (Some ''job-1'') example_state"
    by (simp add: job_registered_def example_state_def)
  have mb: "map_files_in_folder example_batch_env (fi_path ?b) = Inr ?fb"
    by (simp add: example_map_b)
  have nb: "\<not> path_present (fm_summary ?fb)"
    by (simp add: path_present_def empty_file_mapping_def)
  have nf: "\<not> path_present (summary_file ?form)"
    by (simp add: path_present_def)
  from missing_summary_is_fatal [of "Some ''job-1''" example_state example_batch_env ?b 1 ?form
      "''/tmp/rates_tab_1''"] reg mb nb
  have batch: "\<exists>st'. batch_transaction example_batch_env (Some ''job-1'') 1 ?b example_state
              = Inr (\<lparr> br_transaction_name = ''txn_b'', br_status = ''failed'',
                       br_error = Some ''Summary file not found'', br_report = PNone,
                       br_email_sent = False \<rparr>, st')"
    by auto
  from missing_summary_is_fatal [of None fresh_state example_batch_env ?c 2 ?form
      "''/tmp/rates_tab_1''"] nf
  have rates: "rates_file example_batch_env ?form ''/tmp/rates_tab_1'' fresh_state
       = Inr (\<lparr> rp_report = PNone, rp_error_message = Some ''Summary file is required.'' \<rparr>,
              fresh_state)"
    and dist: "\<forall>r st'. batch_transaction example_batch_env None 2 ?c fresh_state = Inr (r, st')
          \<and> br_status r \<noteq> ''failed''
        \<longrightarrow> br_status r = ''success'' \<and> br_error r = None
            \<and> (\<exists>file_paths. map_files_in_folder example_batch_env (fi_path ?c) = Inr file_paths
                  \<and> path_present (fm_summary file_paths)
                  \<and> run_rate_analysis example_batch_env file_paths = Inr (br_report r))"
    by blast+
  have mc: "map_files_in_folder example_batch_env (fi_path ?c) = Inr ?fc"
    by (simp add: example_map_c)
  have "job_registered None fresh_state" by (simp add: job_registered_def)
  from batch_transaction_result [OF this mc example_prints_ok, of 2]
    reconcile_alone_result [OF mc example_prints_ok] example_reconcile_c
  obtain st' where
    c: "batch_transaction example_batch_env None 2 ?c fresh_state
          = Inr (\<lparr> br_transaction_name = ''txn_c'', br_status = ''success'', br_error = None,
                   br_report = example_report 50 ''50.00%'', br_email_sent = True \<rparr>, st')"
    by auto
  from dist c have succ: "\<exists>r st'. batch_transaction example_batch_env None 2 ?c fresh_state = Inr (r, st')
          \<and> br_status r = ''success'' \<and> br_error r = None
          \<and> br_report r = example_report 50 ''50.00%''"
    by fastforce
  from reg mb batch rates succ show ?thesis by simp
qed

section \<open>Properties of the root cause analysis\<close>

lemma bind_exn_Inr_id: "bind_exn m (\<lambda>x. Inr x) = m"
  by (cases m) (simp_all add: bind_exn_def)

lemma py_get_dict:
  "py_get (PDict d) k dflt = Inr (case map_of d k of Some v \<Rightarrow> v | None \<Rightarrow> dflt)"
  by (simp split: option.splits)

lemma bind_exn_Inr: "bind_exn (Inr x) f = f x"
  by (simp add: bind_exn_def)

lemma bind_exn_Inl: "bind_exn (Inl x) f = Inl x"
  by (simp add: bind_exn_def)

lemma extract_row_matched:
  assumes "is_dict row" and "\<not> is_discrepancy row"
  shows "extract_row row = Inr []"
proof -
  from assms(1) obtain d where row: "row = PDict d"
    by (cases row) (simp_all add: is_dict_def)
  from assms(2) have
    "(case map_of d ''diff_status'' of Some v \<Rightarrow> v | None \<Rightarrow> PStr [])
       \<notin> set [PStr ''higher'', PStr ''lower'', PStr ''missing'']"
    by (simp add: is_discrepancy_def dict_get_def row py_get_dict del: py_get.simps)
  then show ?thesis
    by (simp add: extract_row_def row py_get_dict bind_exn_Inr del: py_get.simps)
qed

lemma extract_rows_filter:
  assumes "list_all is_dict rows"
  shows "extract_rows rows = extract_rows (filter is_discrepancy rows)"
  using assms
proof (induction rows)
  case Nil
  then show ?case by simp
next
  case (Cons row rows)
  then have d: "is_dict row" and IH: "extract_rows rows = extract_rows (filter is_discrepancy rows)"
    by simp_all
  show ?case
  proof (cases "is_discrepancy row")
    case True
    then show ?thesis by (simp add: IH)
  next
    case False
    with extract_row_matched [OF d False] IH show ?thesis
      by (simp add: bind_exn_def bind_exn_Inr_id split: sum.splits)
  qed
qed

lemma extract_rows_append:
  "extract_rows (xs @ ys)
     = bind_exn (extract_rows xs) (\<lambda>a. bind_exn (extract_rows ys) (\<lambda>b. Inr (a @ b)))"
proof (induction xs)
  case Nil
  show ?case by (simp add: bind_exn_def split: sum.splits)
next
  case (Cons x xs)
  then show ?case by (simp add: bind_exn_def split: sum.splits)
qed

lemma extract_sheet_rows:
  assumes "well_shaped_sheet sheet"
  shows "extract_sheet sheet = extract_rows (sheet_rows sheet)"
proof -
  from assms obtain d where sh: "sheet = PDict d"
    by (cases sheet) (simp_all add: well_shaped_sheet_def is_dict_def)
  from assms obtain l where l: "dict_get sheet ''rows'' (PList []) = PList l"
    by (cases "dict_get sheet ''rows'' (PList [])") (simp_all add: well_shaped_sheet_def is_list_def)
  then show ?thesis
    by (simp add: extract_sheet_def sheet_rows_def list_items_def dict_get_def sh bind_exn_def
        split: option.splits)
qed

lemma extract_sheets_rows:
  assumes "list_all well_shaped_sheet sheets"
  shows "extract_sheets sheets = extract_rows (concat (map sheet_rows sheets))"
  using assms
proof (induction sheets)
  case Nil
  then show ?case by simp
next
  case (Cons sheet sheets)
  then show ?case
    by (simp add: extract_sheet_rows extract_rows_append)
qed

lemma report_rows_dicts:
  assumes "well_shaped report"
  shows "list_all is_dict (report_rows report)"
proof -
  from assms have "list_all well_shaped_sheet (report_sheets report)"
    by (simp add: well_shaped_def)
  then have "\<forall>sh \<in> set (report_sheets report). list_all is_dict (sheet_rows sh)"
    by (simp add: list_all_iff well_shaped_sheet_def)
  then show ?thesis
    by (auto simp: report_rows_def list_all_iff)
qed

lemma extract_discrepancies_rows:
  assumes "well_shaped report"
  shows "extract_discrepancies report = extract_rows (filter is_discrepancy (report_rows report))"
proof -
  from assms obtain d where r: "report = PDict d"
    by (cases report) (simp_all add: well_shaped_def is_dict_def)
  from assms obtain l where l: "dict_get report ''sheets'' (PList []) = PList l"
    by (cases "dict_get report ''sheets'' (PList [])") (simp_all add: well_shaped_def is_list_def)
  from assms l have ws: "list_all well_shaped_sheet l"
    by (simp add: well_shaped_def report_sheets_def list_items_def)
  from l have "extract_discrepancies report = extract_sheets l"
    by (simp add: extract_discrepancies_def dict_get_def r bind_exn_def split: option.splits)
  also have "\<dots> = extract_rows (concat (map sheet_rows l))"
    by (rule extract_sheets_rows [OF ws])
  also have "\<dots> = extract_rows (report_rows report)"
    using l by (simp add: report_rows_def report_sheets_def list_items_def)
  also have "\<dots> = extract_rows (filter is_discrepancy (report_rows report))"
    by (rule extract_rows_filter [OF report_rows_dicts [OF assms]])
  finally show ?thesis .
qed

lemma build_analysis_prompt_summary:
  assumes "py_get r1 ''summary'' (PDict []) = py_get r2 ''summary'' (PDict [])"
  shows "build_analysis_prompt e r1 ds = build_analysis_prompt e r2 ds"
  by (simp add: build_analysis_prompt_def assms)

text \<open>
  C7. The prompt built for a report (\<^verbatim>\<open>_extract_discrepancies\<close> followed by
  \<^verbatim>\<open>_build_analysis_prompt\<close>) is the same for any two well-shaped reports that have
  the same \<^verbatim>\<open>summary\<close> and the same sequence of rows whose \<^verbatim>\<open>diff_status\<close> is
  \<^verbatim>\<open>higher\<close>, \<^verbatim>\<open>lower\<close> or \<^verbatim>\<open>missing\<close>, however their other rows differ. The prompt
  is a function of the report value and of \<^verbatim>\<open>str\<close> alone: no file is read.
\<close>

theorem analysis_prompt_depends_on_summary_and_discrepancies:
  assumes "well_shaped r1" and "well_shaped r2"
    and "py_get r1 ''summary'' (PDict []) = py_get r2 ''summary'' (PDict [])"
    and "filter is_discrepancy (report_rows r1) = filter is_discrepancy (report_rows r2)"
  shows "analysis_prompt e r1 = analysis_prompt e r2"
proof -
  have "extract_discrepancies r1 = extract_discrepancies r2"
    by (simp add: extract_discrepancies_rows assms(1,2,4))
  moreover have "build_analysis_prompt e r1 ds = build_analysis_prompt e r2 ds" for ds
    by (rule build_analysis_prompt_summary [OF assms(3)])
  ultimately show ?thesis
    by (simp add: analysis_prompt_def)
qed

text \<open>
  C9. For a report dictionary, \<^verbatim>\<open>analyze_reconciliation_discrepancies\<close> returns
  \<^verbatim>\<open>None\<close> and sends nothing to the API when the report has no \<^verbatim>\<open>summary\<close>, when the
  summary has no \<^verbatim>\<open>amount_reconciled_percentage\<close> (the default 100 applies), and when
  that value is a number of at least 95.
\<close>

theorem no_analysis_at_or_above_95:
  assumes "report = PDict d"
  shows "(map_of d ''summary'' = None
            \<longrightarrow> analyze_reconciliation_discrepancies r an report calls = (Inr None, calls))
       \<and> (\<forall>sd. map_of d ''summary'' = Some (PDict sd)
                 \<and> map_of sd ''amount_reconciled_percentage'' = None
            \<longrightarrow> analyze_reconciliation_discrepancies r an report calls = (Inr None, calls))
       \<and> (\<forall>sd v a. map_of d ''summary'' = Some (PDict sd)
                 \<and> map_of sd ''amount_reconciled_percentage'' = Some v
                 \<and> py_num v = Some a \<and> a \<ge> 95
            \<longrightarrow> analyze_reconciliation_discrepancies r an report calls = (Inr None, calls))"
  using assms
  by (auto simp: analyze_reconciliation_discrepancies_def bind_exn_def py_ge_int_def)

lemma example_one_shape:
  "well_shaped example_report_one
   \<and> filter is_discrepancy (report_rows example_report_one)
       = [example_row ''Integrity Fee'' ''higher'' ''+56.90%'',
          example_row ''Network Fee'' ''missing'' ''N/A'']"
  by (simp add: well_shaped_def well_shaped_sheet_def is_dict_def is_list_def dict_get_def
      report_sheets_def sheet_rows_def list_items_def report_rows_def is_discrepancy_def
      example_report_one_def example_rows_report_def example_row_def)

lemma example_two_shape:
  "well_shaped example_report_two
   \<and> filter is_discrepancy (report_rows example_report_two)
       = [example_row ''Integrity Fee'' ''higher'' ''+56.90%'',
          example_row ''Network Fee'' ''missing'' ''N/A'']"
  by (simp add: well_shaped_def well_shaped_sheet_def is_dict_def is_list_def dict_get_def
      report_sheets_def sheet_rows_def list_items_def report_rows_def is_discrepancy_def
      example_report_two_def example_rows_report_def example_row_def)

theorem analysis_prompt_depends_on_summary_and_discrepancies_witness:
  "well_shaped example_report_one \<and> well_shaped example_report_two
   \<and> py_get example_report_one ''summary'' (PDict [])
       = py_get example_report_two ''summary'' (PDict [])
   \<and> filter is_discrepancy (report_rows example_report_one)
       = filter is_discrepancy (report_rows example_report_two)
   \<and> report_rows example_report_one \<noteq> report_rows example_report_two
   \<and> analysis_prompt example_rca_env example_report_one
       = analysis_prompt example_rca_env example_report_two"
proof -
  have w1: "well_shaped example_report_one" and w2: "well_shaped example_report_two"
    by (simp_all add: example_one_shape example_two_shape)
  have su: "py_get example_report_one ''summary'' (PDict [])
       = py_get example_report_two ''summary'' (PDict [])"
    by (simp add: example_report_one_def example_report_two_def example_rows_report_def)
  have fi: "filter is_discrepancy (report_rows example_report_one)
       = filter is_discrepancy (report_rows example_report_two)"
    by (simp add: example_one_shape example_two_shape)
  have ne: "report_rows example_report_one \<noteq> report_rows example_report_two"
    by (simp add: dict_get_def report_sheets_def sheet_rows_def list_items_def report_rows_def
        example_report_one_def example_report_two_def example_rows_report_def)
  from analysis_prompt_depends_on_summary_and_discrepancies [OF w1 w2 su fi, of example_rca_env]
    w1 w2 su fi ne
  show ?thesis by blast
qed

lemma example_one_discrepancies:
  "\<exists>d1 d2. extract_discrepancies example_report_one = Inr [d1, d2]"
proof -
  have "extract_discrepancies example_report_one
      = extract_rows [example_row ''Integrity Fee'' ''higher'' ''+56.90%'',
                      example_row ''Network Fee'' ''missing'' ''N/A'']"
    by (simp add: extract_discrepancies_rows example_one_shape)
  then show ?thesis
    by (simp add: example_row_def extract_row_def py_get_dict bind_exn_Inr del: py_get.simps)
qed

lemma example_one_prompt:
  "\<exists>p. build_analysis_prompt example_rca_env example_report_one ds = Inr p"
  by (simp add: build_analysis_prompt_def example_report_one_def example_rows_report_def
      example_summary_def py_get_dict bind_exn_Inr del: py_get.simps)

theorem no_analysis_at_or_above_95_witness:
  "analyze_reconciliation_discrepancies example_rca_env (init_analyzer (Some ''sk-test'') None)
       (PDict [(''sheets'', PList [])]) [] = (Inr None, [])
   \<and> analyze_reconciliation_discrepancies example_rca_env (init_analyzer (Some ''sk-test'') None)
       (PDict [(''summary'', PDict [(''matched_items'', PInt 3)])]) [] = (Inr None, [])
   \<and> analyze_reconciliation_discrepancies example_rca_env (init_analyzer (Some ''sk-test'') None)
       (PDict [(''summary'', PDict [(''amount_reconciled_percentage'', PInt 95)])]) []
       = (Inr None, [])"
proof -
  let ?an = "init_analyzer (Some ''sk-test'') None"
  have c1: "analyze_reconciliation_discrepancies example_rca_env ?an
       (PDict [(''sheets'', PList [])]) [] = (Inr None, [])"
    using no_analysis_at_or_above_95
      [of "PDict [(''sheets'', PList [])]" "[(''sheets'', PList [])]" example_rca_env ?an "[]"]
    by simp
  have c2: "analyze_reconciliation_discrepancies example_rca_env ?an
       (PDict [(''summary'', PDict [(''matched_items'', PInt 3)])]) [] = (Inr None, [])"
    using no_analysis_at_or_above_95
      [of "PDict [(''summary'', PDict [(''matched_items'', PInt 3)])]"
          "[(''summary'', PDict [(''matched_items'', PInt 3)])]" example_rca_env ?an "[]"]
    by simp
  have c3: "analyze_reconciliation_discrepancies example_rca_env ?an
       (PDict [(''summary'', PDict [(''amount_reconciled_percentage'', PInt 95)])]) []
       = (Inr None, [])"
    using no_analysis_at_or_above_95
      [of "PDict [(''summary'', PDict [(''amount_reconciled_percentage'', PInt 95)])]"
          "[(''summary'', PDict [(''amount_reconciled_percentage'', PInt 95)])]"
          example_rca_env ?an "[]"]
    by simp
  from c1 c2 c3 show ?thesis by blast
qed

lemma example_analysis_below_95:
  "\<exists>p. analyze_reconciliation_discrepancies example_rca_env (init_analyzer (Some ''sk-test'') None)
         example_report_one []
       = (Inr (Some ''<p>Integrity Fee variance (+56.9%)</p>''), [p])"
proof -
  let ?an = "init_analyzer (Some ''sk-test'') None"
  obtain d1 d2 where ds: "extract_discrepancies example_report_one = Inr [d1, d2]"
    using example_one_discrepancies by blast
  obtain p where bp: "build_analysis_prompt example_rca_env example_report_one [d1, d2] = Inr p"
    using example_one_prompt by blast
  have am: "bind_exn (py_get example_report_one ''summary'' (PDict [])) (\<lambda>summary.
           bind_exn (py_get summary ''amount_reconciled_percentage'' (PInt 100)) (\<lambda>amount_reconciled.
             py_ge_int amount_reconciled 95)) = Inr False"
    by (simp add: example_report_one_def example_rows_report_def example_summary_def
        bind_exn_def py_ge_int_def)
  have av: "check_openai_availability ?an"
    by (simp add: check_openai_availability_def init_analyzer_def path_present_def)
  have gen: "generate_analysis example_rca_env ?an p []
      = (Inr (Some ''Integrity Fee variance (+56.9%)''), [p])"
    by (simp add: generate_analysis_def generate_try_def av example_rca_env_def strip_def
        is_space_def)
  have fm: "format_analysis_html example_rca_env a = ''<p>'' @ a @ ''</p>''" for a
    by (simp add: example_rca_env_def)
  have "analyze_reconciliation_discrepancies example_rca_env ?an example_report_one []
       = (Inr (Some ''<p>Integrity Fee variance (+56.9%)</p>''), [p])"
    unfolding analyze_reconciliation_discrepancies_def am
    by (simp add: av ds bp gen fm)
  then show ?thesis by blast
qed


end
